theory Spec2Isabelle
  imports Main
begin

section \<open>The backend proxy of thonny/running.py\<close>

text \<open>
  The theory embeds class \<open>_BackendProxy\<close> of \<open>src/thonny/running.py\<close>: the object
  that owns the worker process, its message queue and the state string. Every method is
  a function from the proxy (and its arguments) to the updated proxy. An exception raised
  by the Python code is a value of type \<open>error\<close>, returned next to the proxy as it is at
  the moment of the raise. The bodies guarded by \<open>with self._state_lock\<close> are atomic here;
  the threads of the program interleave whole method calls and whole reader iterations.
  Calls of \<open>logging.info\<close> and \<open>logging.debug\<close> write nothing the proxy reads and are left
  out.
\<close>

subsection \<open>Data\<close>

datatype error = AttributeError | KeyError | OSError

text \<open>
  Modelled from the spec: the value returned by \<open>parse_message\<close> of \<open>thonny.common\<close>, which
  is not part of the sources. Section 3 of the specification makes \<open>message_type\<close> a
  required field; \<open>cwd\<close>, \<open>stream_name\<close> and \<open>data\<close> are keys that a message may or may not
  carry, so subscripting a message that lacks one of them raises \<open>KeyError\<close>.
\<close>

record message =
  message_type :: string
  stream_name :: "string option"
  data :: "string option"
  msg_cwd :: "string option"

text \<open>
  Modelled from the spec: the command classes of \<open>thonny.common\<close>, which are not part of
  the sources either. Section 3 of the specification lists four variants; a
  \<open>ToplevelCommand\<close> has a command name and optional \<open>filename\<close>, \<open>args\<close> and \<open>path\<close>
  attributes, an \<open>InlineCommand\<close> has a command name, an \<open>InputSubmission\<close> has its data.
\<close>

datatype command =
    ToplevelCommand string "string option" "string list option" "string option"
  | DebuggerCommand string
  | InlineCommand string
  | InputSubmission string

fun is_ToplevelCommand :: "command \<Rightarrow> bool" where
  "is_ToplevelCommand (ToplevelCommand c f a p) = True"
| "is_ToplevelCommand _ = False"

fun is_DebuggerCommand :: "command \<Rightarrow> bool" where
  "is_DebuggerCommand (DebuggerCommand d) = True"
| "is_DebuggerCommand _ = False"

fun is_InlineCommand :: "command \<Rightarrow> bool" where
  "is_InlineCommand (InlineCommand c) = True"
| "is_InlineCommand _ = False"

fun is_InputSubmission :: "command \<Rightarrow> bool" where
  "is_InputSubmission (InputSubmission d) = True"
| "is_InputSubmission _ = False"

text \<open>\<open>hasattr(cmd, "filename")\<close> with \<open>cmd.filename\<close>, and the same for \<open>args\<close>.\<close>

fun filename :: "command \<Rightarrow> string option" where
  "filename (ToplevelCommand c f a p) = f"
| "filename _ = None"

fun args :: "command \<Rightarrow> string list option" where
  "args (ToplevelCommand c f a p) = a"
| "args _ = None"

text \<open>
  What the proxy takes from its platform: the functions of \<open>os.path\<close>, \<open>os.environ\<close>,
  \<open>sys.executable\<close>, and \<open>serialize_message\<close> of \<open>thonny.common\<close>. None of them is defined
  in the sources, so they are parameters. The last parameter is the outcome of
  \<open>subprocess.Popen\<close> on a command line, an environment and a working directory: the
  launch succeeds, or it raises \<open>OSError\<close> (the executable or the directory is missing,
  permission is denied).
\<close>

record platform =
  path_exists :: "string \<Rightarrow> bool"
  expanduser_home :: string
  path_basename :: "string \<Rightarrow> string"
  path_dirname :: "string \<Rightarrow> string"
  path_join :: "string \<Rightarrow> string \<Rightarrow> string"
  os_environ :: "string \<rightharpoonup> string"
  sys_executable :: string
  serialize_message :: "command \<Rightarrow> string"
  launch_succeeds :: "string list \<Rightarrow> (string \<rightharpoonup> string) \<Rightarrow> string \<Rightarrow> bool"

text \<open>
  A worker process as the operating system holds it: what \<open>subprocess.Popen\<close> was given,
  whether the process still runs (\<open>poll()\<close> returns \<open>None\<close>), and the byte strings written
  to its standard input so far.
\<close>

record process =
  p_args :: "string list"
  p_env :: "string \<rightharpoonup> string"
  p_cwd :: string
  alive :: bool
  stdin_data :: "string list"

text \<open>
  The effects of the proxy in program order: an assignment to \<open>_state\<close>,
  \<open>Popen.kill\<close>, \<open>subprocess.Popen\<close>, \<open>start_new_thread\<close>, and \<open>write\<close> and \<open>flush\<close> on
  the standard input of a process.
\<close>

datatype event =
    SetState string
  | Kill nat
  | Popen nat
  | StartThread string
  | StdinWrite nat string
  | StdinFlush nat

text \<open>
  The fields of \<open>_BackendProxy\<close> (\<open>_proc\<close> is a handle: an index into \<open>procs\<close>), followed
  by the table of all processes spawned so far and the trace of effects.
\<close>

record proxy =
  cwd :: string
  thonny_dir :: string
  proc :: "nat option"
  state :: "string option"
  message_queue :: "message list option"
  procs :: "process list"
  trace :: "event list"

definition COMMUNICATION_ENCODING :: string where
  "COMMUNICATION_ENCODING = ''UTF-8''"

subsection \<open>String methods used by the proxy\<close>

text \<open>
  Strings are lists of bytes. \<open>str.lower\<close> is modelled on the ASCII letters;
  \<open>str_contains sub s\<close> is \<open>sub in s\<close>; \<open>str_replace old new s\<close> is \<open>s.replace(old, new)\<close>.
\<close>

definition lower_char :: "char \<Rightarrow> char" where
  "lower_char c =
     (if (65::nat) \<le> of_char c \<and> of_char c \<le> (90::nat)
      then char_of (of_char c + (32::nat)) else c)"

definition str_lower :: "string \<Rightarrow> string" where
  "str_lower s = map lower_char s"

fun startswith :: "string \<Rightarrow> string \<Rightarrow> bool" where
  "startswith s [] = True"
| "startswith [] (p # ps) = False"
| "startswith (c # cs) (p # ps) = (c = p \<and> startswith cs ps)"

fun str_contains :: "string \<Rightarrow> string \<Rightarrow> bool" where
  "str_contains sub [] = (sub = [])"
| "str_contains sub (c # cs) = (startswith (c # cs) sub \<or> str_contains sub cs)"

fun str_replace :: "string \<Rightarrow> string \<Rightarrow> string \<Rightarrow> string" where
  "str_replace old new [] = (if old = [] then new else [])"
| "str_replace old new (c # cs) =
     (if old = [] then new @ c # str_replace old new cs
      else if startswith (c # cs) old
        then new @ str_replace old new (drop (length old) (c # cs))
      else c # str_replace old new cs)"

subsection \<open>Construction and observers\<close>

definition init :: "platform \<Rightarrow> string \<Rightarrow> string \<Rightarrow> proxy" where
  "init pf default_cwd main_dir =
     \<lparr> cwd = (if path_exists pf default_cwd then default_cwd else expanduser_home pf),
       thonny_dir = main_dir,
       proc = None,
       state = None,
       message_queue = None,
       procs = [],
       trace = [] \<rparr>"

definition get_state :: "proxy \<Rightarrow> string option" where
  "get_state s = state s"

definition get_cwd :: "proxy \<Rightarrow> string" where
  "get_cwd s = cwd s"

definition set_state :: "string \<Rightarrow> proxy \<Rightarrow> proxy" where
  "set_state st s =
     (if state s \<noteq> Some st
      then s\<lparr> state := Some st, trace := trace s @ [SetState st] \<rparr>
      else s)"

subsection \<open>fetch_next_message\<close>

text \<open>
  The \<open>while True\<close> loop of \<open>fetch_next_message\<close>, run on the held message and the rest of
  the deque. It returns the held message, or the error raised, with the deque as the loop
  leaves it: \<open>next_msg\<close> has been popped when a subscript raises.
\<close>

fun coalesce :: "message \<Rightarrow> message list \<Rightarrow> (error + message) \<times> message list" where
  "coalesce msg [] = (Inr msg, [])"
| "coalesce msg (next_msg # q) =
     (if message_type next_msg = ''Output'' then
        (case stream_name next_msg of
           None \<Rightarrow> (Inl KeyError, q)
         | Some next_stream \<Rightarrow>
            (case stream_name msg of
               None \<Rightarrow> (Inl KeyError, q)
             | Some stream \<Rightarrow>
                (if next_stream = stream then
                   (case data msg of
                      None \<Rightarrow> (Inl KeyError, q)
                    | Some d \<Rightarrow>
                       (case data next_msg of
                          None \<Rightarrow> (Inl KeyError, q)
                        | Some next_d \<Rightarrow> coalesce (msg\<lparr> data := Some (d @ next_d) \<rparr>) q))
                 else (Inr msg, next_msg # q))))
      else (Inr msg, next_msg # q))"

definition fetch_next_message :: "proxy \<Rightarrow> (error + message option) \<times> proxy" where
  "fetch_next_message s =
     (case message_queue s of
        None \<Rightarrow> (Inr None, s)
      | Some [] \<Rightarrow> (Inr None, s)
      | Some (msg # q) \<Rightarrow>
          (if message_type msg = ''Output'' then
             (case coalesce msg q of
                (Inl e, q') \<Rightarrow> (Inl e, s\<lparr> message_queue := Some q' \<rparr>)
              | (Inr m, q') \<Rightarrow> (Inr (Some m), s\<lparr> message_queue := Some q' \<rparr>))
           else (Inr (Some msg), s\<lparr> message_queue := Some q \<rparr>)))"

subsection \<open>Killing and starting the worker\<close>

definition poll_is_None :: "proxy \<Rightarrow> nat \<Rightarrow> bool" where
  "poll_is_None s h = (h < length (procs s) \<and> alive (procs s ! h))"

definition update_process :: "nat \<Rightarrow> (process \<Rightarrow> process) \<Rightarrow> process list \<Rightarrow> process list" where
  "update_process h f ps = (if h < length ps then ps[h := f (ps ! h)] else ps)"

definition kill_current_process :: "proxy \<Rightarrow> proxy" where
  "kill_current_process s =
     (case proc s of
        None \<Rightarrow> s
      | Some h \<Rightarrow>
          (if poll_is_None s h then
             s\<lparr> procs := update_process h (\<lambda>p. p\<lparr> alive := False \<rparr>) (procs s),
                trace := trace s @ [Kill h],
                proc := None,
                message_queue := None \<rparr>
           else s))"

definition backend_cmd_line :: "platform \<Rightarrow> string \<Rightarrow> string list" where
  "backend_cmd_line pf dir =
     (if str_contains ''thonny'' (str_lower (path_basename pf (sys_executable pf)))
      then [path_join pf (path_dirname pf (sys_executable pf))
              (str_replace ''frontend'' ''backend'' (path_basename pf (sys_executable pf)))]
      else [sys_executable pf, ''-u'', path_join pf dir ''thonny_backend.py''])"

text \<open>The environment and the command line that \<open>_start_new_process\<close> builds.\<close>

definition worker_env :: "platform \<Rightarrow> (string \<rightharpoonup> string)" where
  "worker_env pf =
     (os_environ pf)(''PYTHONIOENCODING'' \<mapsto> COMMUNICATION_ENCODING,
                     ''PYTHONUNBUFFERED'' \<mapsto> ''1'')"

definition worker_cmd_line :: "platform \<Rightarrow> command \<Rightarrow> proxy \<Rightarrow> string list" where
  "worker_cmd_line pf cmd s =
     backend_cmd_line pf (thonny_dir s) @
       (case filename cmd of
          None \<Rightarrow> []
        | Some f \<Rightarrow> f # (case args cmd of None \<Rightarrow> [] | Some a \<Rightarrow> a))"

text \<open>Whether the \<open>subprocess.Popen\<close> call of \<open>_start_new_process\<close> succeeds on a proxy.\<close>

definition launch_ok :: "platform \<Rightarrow> command \<Rightarrow> proxy \<Rightarrow> bool" where
  "launch_ok pf cmd s =
     launch_succeeds pf (worker_cmd_line pf cmd s) (worker_env pf) (cwd s)"

text \<open>
  \<open>_start_new_process\<close> assigns the new deque first and calls \<open>subprocess.Popen\<close> after
  it. When the launch raises, the call ends there: the new deque stays, \<open>_proc\<close> is not
  assigned and no reader thread is started.
\<close>

definition start_new_process :: "platform \<Rightarrow> command \<Rightarrow> proxy \<Rightarrow> error option \<times> proxy" where
  "start_new_process pf cmd s =
     (let s1 = s\<lparr> message_queue := Some [] \<rparr>;
          my_env = worker_env pf;
          cmd_line = worker_cmd_line pf cmd s1;
          h = length (procs s1)
      in if launch_succeeds pf cmd_line my_env (cwd s1)
         then (None,
               s1\<lparr> procs := procs s1 @
                      [\<lparr> p_args = cmd_line, p_env = my_env, p_cwd = cwd s1,
                         alive = True, stdin_data = [] \<rparr>],
                    proc := Some h,
                    trace := trace s1 @
                      [Popen h, StartThread ''_listen_stdout'',
                       StartThread ''_listen_stderr''] \<rparr>)
         else (Some OSError, s1))"

subsection \<open>send_command\<close>

text \<open>\<open>isinstance(cmd, ToplevelCommand) and cmd.command in ("Run", "Debug", "Reset")\<close>\<close>

fun restarts :: "command \<Rightarrow> bool" where
  "restarts (ToplevelCommand c f a p) = (c = ''Run'' \<or> c = ''Debug'' \<or> c = ''Reset'')"
| "restarts _ = False"

text \<open>
  \<open>self._proc.stdin.write(...)\<close> and \<open>self._proc.stdin.flush()\<close>: with \<open>_proc\<close> being
  \<open>None\<close> the attribute access raises. Encoding a byte string in UTF-8 is the identity.
  The bytes are recorded with the process they were written to, also when that process
  has exited; a broken pipe is not modelled.
\<close>

definition stdin_write :: "string \<Rightarrow> proxy \<Rightarrow> error option \<times> proxy" where
  "stdin_write line s =
     (case proc s of
        None \<Rightarrow> (Some AttributeError, s)
      | Some h \<Rightarrow>
          (None, s\<lparr> procs := update_process h
                       (\<lambda>p. p\<lparr> stdin_data := stdin_data p @ [line] \<rparr>) (procs s),
                    trace := trace s @ [StdinWrite h line, StdinFlush h] \<rparr>))"

text \<open>An exception of \<open>_start_new_process\<close> leaves \<open>send_command\<close> before the write.\<close>

definition send_command :: "platform \<Rightarrow> command \<Rightarrow> proxy \<Rightarrow> error option \<times> proxy" where
  "send_command pf cmd s =
     (let s1 = (if is_ToplevelCommand cmd \<or> is_DebuggerCommand cmd \<or> is_InputSubmission cmd
                then set_state ''running'' s else s)
      in if restarts cmd
         then (case start_new_process pf cmd (kill_current_process s1) of
                 (Some e, s2) \<Rightarrow> (Some e, s2)
               | (None, s2) \<Rightarrow> stdin_write (serialize_message pf cmd @ ''\<newline>'') s2)
         else stdin_write (serialize_message pf cmd @ ''\<newline>'') s1)"

definition send_program_input :: "platform \<Rightarrow> string \<Rightarrow> proxy \<Rightarrow> error option \<times> proxy" where
  "send_program_input pf d s = send_command pf (InputSubmission d) s"

subsection \<open>The reader of the worker's standard output\<close>

text \<open>
  One iteration of the loop of \<open>_listen_stdout\<close> on a line that \<open>parse_message\<close> decoded
  into \<open>msg\<close>. The working directory is assigned before the queue is touched; appending to
  a queue that is \<open>None\<close> raises and ends the thread.
\<close>

definition listen_stdout_step :: "message \<Rightarrow> proxy \<Rightarrow> error option \<times> proxy" where
  "listen_stdout_step msg s =
     (let s1 = (case msg_cwd msg of Some c \<Rightarrow> s\<lparr> cwd := c \<rparr> | None \<Rightarrow> s)
      in case message_queue s1 of
           None \<Rightarrow> (Some AttributeError, s1)
         | Some q \<Rightarrow>
            (let s2 = s1\<lparr> message_queue := Some (q @ [msg]) \<rparr>
             in (None,
                 if message_type msg = ''ToplevelResult''
                   then set_state ''waiting_toplevel_command'' s2
                 else if message_type msg = ''DebuggerProgress''
                   then set_state ''waiting_debug_command'' s2
                 else if message_type msg = ''InputRequest''
                   then set_state ''waiting_input'' s2
                 else s2)))"

text \<open>The worker ends by itself: the operating system's step, not the proxy's.\<close>

definition process_exits :: "nat \<Rightarrow> proxy \<Rightarrow> proxy" where
  "process_exits h s = s\<lparr> procs := update_process h (\<lambda>p. p\<lparr> alive := False \<rparr>) (procs s) \<rparr>"

subsection \<open>Runs of the proxy\<close>

text \<open>
  The calls that reach a proxy, from any thread: a command is sent, the poller fetches a
  message, the reader handles a decoded message, the worker exits. A run applies a list
  of them in order; an exception ends the call that raised it and leaves the proxy as it
  is then.
\<close>

datatype action =
    Send command
  | Fetch
  | Receive message
  | Exit nat

fun step :: "platform \<Rightarrow> proxy \<Rightarrow> action \<Rightarrow> proxy" where
  "step pf s (Send cmd) = snd (send_command pf cmd s)"
| "step pf s Fetch = snd (fetch_next_message s)"
| "step pf s (Receive msg) = snd (listen_stdout_step msg s)"
| "step pf s (Exit h) = process_exits h s"

definition run :: "platform \<Rightarrow> proxy \<Rightarrow> action list \<Rightarrow> proxy" where
  "run pf s acts = foldl (step pf) s acts"

text \<open>The value of \<open>_state\<close> after the assignments recorded in a list of events.\<close>

fun state_after :: "string option \<Rightarrow> event list \<Rightarrow> string option" where
  "state_after st [] = st"
| "state_after st (SetState v # es) = state_after (Some v) es"
| "state_after st (e # es) = state_after st es"

subsection \<open>Vocabulary of the statements\<close>

text \<open>
  An \<open>Output\<close> message is well formed when it carries \<open>stream_name\<close> and \<open>data\<close>, as
  section 3 of the specification says it does.
\<close>

definition well_formed :: "message \<Rightarrow> bool" where
  "well_formed m =
     (if message_type m = ''Output'' then stream_name m \<noteq> None \<and> data m \<noteq> None else True)"

text \<open>The test of the loop: \<open>next_msg\<close> is an \<open>Output\<close> of the stream of \<open>msg\<close>.\<close>

definition same_stream :: "message \<Rightarrow> message \<Rightarrow> bool" where
  "same_stream msg next_msg =
     (message_type next_msg = ''Output'' \<and> stream_name next_msg = stream_name msg)"

definition payload :: "message \<Rightarrow> string" where
  "payload m = (case data m of Some d \<Rightarrow> d | None \<Rightarrow> [])"

text \<open>A platform on which the statements are evaluated at concrete inputs.\<close>

definition posix_platform :: platform where
  "posix_platform =
     \<lparr> path_exists = (\<lambda>p. p \<noteq> []),
       expanduser_home = ''/home/user'',
       path_basename = (\<lambda>p. rev (takeWhile (\<lambda>c. c \<noteq> CHR ''/'') (rev p))),
       path_dirname = (\<lambda>p. rev (drop 1 (dropWhile (\<lambda>c. c \<noteq> CHR ''/'') (rev p)))),
       path_join = (\<lambda>a b. a @ ''/'' @ b),
       os_environ = [''HOME'' \<mapsto> ''/home/user''],
       sys_executable = ''/usr/bin/python3'',
       serialize_message = (\<lambda>cmd. case cmd of
           ToplevelCommand c f a p \<Rightarrow> ''ToplevelCommand '' @ c
         | DebuggerCommand d \<Rightarrow> ''DebuggerCommand '' @ d
         | InlineCommand c \<Rightarrow> ''InlineCommand '' @ c
         | InputSubmission d \<Rightarrow> ''InputSubmission '' @ d),
       launch_succeeds = (\<lambda>cmd_line env dir. dir \<noteq> ''/gone'') \<rparr>"

text \<open>The events that a call appended to the trace.\<close>

definition new_events :: "proxy \<Rightarrow> proxy \<Rightarrow> event list" where
  "new_events s s' = drop (length (trace s)) (trace s')"

text \<open>Concrete commands, messages and proxies for the evaluations.\<close>

definition run_script :: command where
  "run_script = ToplevelCommand ''Run'' (Some ''a.py'') (Some [''-v'']) None"

definition input_request :: message where
  "input_request =
     \<lparr> message_type = ''InputRequest'', stream_name = None, data = None,
       msg_cwd = Some ''/tmp/x'' \<rparr>"

definition fresh_proxy :: proxy where
  "fresh_proxy = init posix_platform ''/tmp'' ''/opt/thonny''"

definition waiting_proxy :: proxy where
  "waiting_proxy = run posix_platform fresh_proxy [Send run_script, Receive input_request]"

definition gone_message :: message where
  "gone_message =
     \<lparr> message_type = ''ToplevelResult'', stream_name = None, data = None,
       msg_cwd = Some ''/gone'' \<rparr>"

definition gone_proxy :: proxy where
  "gone_proxy =
     run posix_platform fresh_proxy
       [Send run_script, Receive input_request, Receive gone_message]"

definition exited_proxy :: proxy where
  "exited_proxy =
     run posix_platform fresh_proxy [Send run_script, Receive input_request, Exit 0]"

section \<open>Properties\<close>

subsection \<open>Coalescing in fetch_next_message\<close>

lemma coalesce_run:
  assumes "stream_name msg = Some sn" and "data msg = Some d"
    and "\<forall>x \<in> set xs. message_type x = ''Output'' \<and> stream_name x = Some sn \<and> data x \<noteq> None"
    and "rest = [] \<or> message_type (hd rest) \<noteq> ''Output''
           \<or> (\<exists>t. stream_name (hd rest) = Some t \<and> t \<noteq> sn)"
  shows "coalesce msg (xs @ rest) =
           (Inr (msg\<lparr> data := Some (d @ concat (map payload xs)) \<rparr>), rest)"
  using assms
proof (induction xs arbitrary: msg d)
  case Nil
  then show ?case by (cases rest) auto
next
  case (Cons x xs)
  from Cons.prems obtain dx where dx: "data x = Some dx" by auto
  have px: "payload x = dx" by (simp add: payload_def dx)
  have "coalesce msg ((x # xs) @ rest) = coalesce (msg\<lparr> data := Some (d @ dx) \<rparr>) (xs @ rest)"
    using Cons.prems dx by simp
  also have "\<dots> = (Inr (msg\<lparr> data := Some (d @ dx) \<rparr>
                          \<lparr> data := Some ((d @ dx) @ concat (map payload xs)) \<rparr>), rest)"
    by (rule Cons.IH) (use Cons.prems in auto)
  finally show ?case using dx by (simp add: px)
qed

text \<open>
  C1. With \<open>Output(stdout, "a")\<close>, \<open>Output(stdout, "b")\<close> and a \<open>ToplevelResult\<close> in the
  queue, in this order, one call of \<open>fetch_next_message\<close> returns the single message
  \<open>Output(stdout, "ab")\<close> and leaves the \<open>ToplevelResult\<close>, which the next call returns.
  In general a head message that is not an \<open>Output\<close> is returned as it is, and only it is
  taken from the queue.
\<close>

theorem fetch_next_message_coalesces:
  "fetch_next_message (s\<lparr> message_queue := Some
       [\<lparr> message_type = ''Output'', stream_name = Some ''stdout'',
          data = Some ''a'', msg_cwd = c1 \<rparr>,
        \<lparr> message_type = ''Output'', stream_name = Some ''stdout'',
          data = Some ''b'', msg_cwd = c2 \<rparr>,
        \<lparr> message_type = ''ToplevelResult'', stream_name = sn, data = d, msg_cwd = c3 \<rparr>] \<rparr>)
     = (Inr (Some \<lparr> message_type = ''Output'', stream_name = Some ''stdout'',
                    data = Some ''ab'', msg_cwd = c1 \<rparr>),
        s\<lparr> message_queue := Some
          [\<lparr> message_type = ''ToplevelResult'', stream_name = sn, data = d, msg_cwd = c3 \<rparr>] \<rparr>)
   \<and> fetch_next_message (s\<lparr> message_queue := Some
       [\<lparr> message_type = ''ToplevelResult'', stream_name = sn, data = d, msg_cwd = c3 \<rparr>] \<rparr>)
     = (Inr (Some \<lparr> message_type = ''ToplevelResult'', stream_name = sn,
                    data = d, msg_cwd = c3 \<rparr>),
        s\<lparr> message_queue := Some [] \<rparr>)
   \<and> (message_type m \<noteq> ''Output'' \<longrightarrow>
        fetch_next_message (s\<lparr> message_queue := Some (m # q) \<rparr>)
          = (Inr (Some m), s\<lparr> message_queue := Some q \<rparr>))"
  by (simp add: fetch_next_message_def)

theorem fetch_next_message_coalesces_witness:
  "message_type \<lparr> message_type = ''InputRequest'', stream_name = None,
                  data = None, msg_cwd = None \<rparr> \<noteq> ''Output''
   \<and> fetch_next_message (init posix_platform ''/tmp'' ''/opt/thonny''
        \<lparr> message_queue := Some
          [\<lparr> message_type = ''InputRequest'', stream_name = None,
             data = None, msg_cwd = None \<rparr>,
           \<lparr> message_type = ''Output'', stream_name = Some ''stdout'',
             data = Some ''a'', msg_cwd = None \<rparr>] \<rparr>)
     = (Inr (Some \<lparr> message_type = ''InputRequest'', stream_name = None,
                    data = None, msg_cwd = None \<rparr>),
        init posix_platform ''/tmp'' ''/opt/thonny''
        \<lparr> message_queue := Some
          [\<lparr> message_type = ''Output'', stream_name = Some ''stdout'',
             data = Some ''a'', msg_cwd = None \<rparr>] \<rparr>)"
  using fetch_next_message_coalesces
    [where m = "\<lparr> message_type = ''InputRequest'', stream_name = None,
                  data = None, msg_cwd = None \<rparr>"
       and q = "[\<lparr> message_type = ''Output'', stream_name = Some ''stdout'',
                   data = Some ''a'', msg_cwd = None \<rparr>]"
       and s = "init posix_platform ''/tmp'' ''/opt/thonny''"]
  by simp

text \<open>
  C2. When the head of the queue is an \<open>Output\<close> message, \<open>fetch_next_message\<close> merges the
  \<open>Output\<close> messages of the same stream that follow it and stops at the first message
  that is not an \<open>Output\<close> of that stream: this message stays at the head of the queue.
  The messages are well formed. In particular \<open>Output(stdout, "x")\<close> followed by
  \<open>Output(stderr, "y")\<close> comes out as two messages, in this order.
\<close>

theorem fetch_next_message_stream_separation:
  assumes "message_type msg = ''Output''"
    and "list_all well_formed (msg # xs @ [y])"
    and "list_all (same_stream msg) xs"
    and "\<not> same_stream msg y"
  shows "fetch_next_message (s\<lparr> message_queue := Some (msg # xs @ y # ys) \<rparr>)
           = (Inr (Some (msg\<lparr> data := Some (payload msg @ concat (map payload xs)) \<rparr>)),
              s\<lparr> message_queue := Some (y # ys) \<rparr>)
         \<and> fetch_next_message (s\<lparr> message_queue := Some
             [\<lparr> message_type = ''Output'', stream_name = Some ''stdout'',
                data = Some ''x'', msg_cwd = c1 \<rparr>,
              \<lparr> message_type = ''Output'', stream_name = Some ''stderr'',
                data = Some ''y'', msg_cwd = c2 \<rparr>] \<rparr>)
           = (Inr (Some \<lparr> message_type = ''Output'', stream_name = Some ''stdout'',
                          data = Some ''x'', msg_cwd = c1 \<rparr>),
              s\<lparr> message_queue := Some
                [\<lparr> message_type = ''Output'', stream_name = Some ''stderr'',
                   data = Some ''y'', msg_cwd = c2 \<rparr>] \<rparr>)
         \<and> fetch_next_message (s\<lparr> message_queue := Some
             [\<lparr> message_type = ''Output'', stream_name = Some ''stderr'',
                data = Some ''y'', msg_cwd = c2 \<rparr>] \<rparr>)
           = (Inr (Some \<lparr> message_type = ''Output'', stream_name = Some ''stderr'',
                          data = Some ''y'', msg_cwd = c2 \<rparr>),
              s\<lparr> message_queue := Some [] \<rparr>)"
proof -
  from assms(1,2) obtain sn d where sn: "stream_name msg = Some sn" and d: "data msg = Some d"
    by (auto simp: well_formed_def split: if_splits)
  have run: "\<forall>x \<in> set xs. message_type x = ''Output'' \<and> stream_name x = Some sn \<and> data x \<noteq> None"
    using assms(2,3) sn by (auto simp: well_formed_def same_stream_def list_all_iff)
  have stop: "message_type y \<noteq> ''Output'' \<or> (\<exists>t. stream_name y = Some t \<and> t \<noteq> sn)"
    using assms(2,4) sn by (auto simp: well_formed_def same_stream_def split: if_splits)
  have "coalesce msg (xs @ y # ys)
          = (Inr (msg\<lparr> data := Some (d @ concat (map payload xs)) \<rparr>), y # ys)"
    by (rule coalesce_run [OF sn d run]) (use stop in simp)
  then have general: "fetch_next_message (s\<lparr> message_queue := Some (msg # xs @ y # ys) \<rparr>)
           = (Inr (Some (msg\<lparr> data := Some (payload msg @ concat (map payload xs)) \<rparr>)),
              s\<lparr> message_queue := Some (y # ys) \<rparr>)"
    using assms(1) d by (simp add: fetch_next_message_def payload_def)
  show ?thesis
    by (rule conjI [OF general]) (simp add: fetch_next_message_def)
qed

theorem fetch_next_message_stream_separation_witness:
  "message_type \<lparr> message_type = ''Output'', stream_name = Some ''stdout'',
                  data = Some ''x'', msg_cwd = None \<rparr> = ''Output''
   \<and> list_all well_formed
         (\<lparr> message_type = ''Output'', stream_name = Some ''stdout'',
             data = Some ''x'', msg_cwd = None \<rparr>
          # [\<lparr> message_type = ''Output'', stream_name = Some ''stdout'',
               data = Some ''z'', msg_cwd = None \<rparr>]
          @ [\<lparr> message_type = ''Output'', stream_name = Some ''stderr'',
               data = Some ''y'', msg_cwd = None \<rparr>])
   \<and> list_all
         (same_stream \<lparr> message_type = ''Output'', stream_name = Some ''stdout'',
                        data = Some ''x'', msg_cwd = None \<rparr>)
         [\<lparr> message_type = ''Output'', stream_name = Some ''stdout'',
             data = Some ''z'', msg_cwd = None \<rparr>]
   \<and> \<not> same_stream \<lparr> message_type = ''Output'', stream_name = Some ''stdout'',
                       data = Some ''x'', msg_cwd = None \<rparr>
                     \<lparr> message_type = ''Output'', stream_name = Some ''stderr'',
                       data = Some ''y'', msg_cwd = None \<rparr>
   \<and> fetch_next_message (init posix_platform ''/tmp'' ''/opt/thonny''
        \<lparr> message_queue := Some
          [\<lparr> message_type = ''Output'', stream_name = Some ''stdout'',
             data = Some ''x'', msg_cwd = None \<rparr>,
           \<lparr> message_type = ''Output'', stream_name = Some ''stdout'',
             data = Some ''z'', msg_cwd = None \<rparr>,
           \<lparr> message_type = ''Output'', stream_name = Some ''stderr'',
             data = Some ''y'', msg_cwd = None \<rparr>,
           \<lparr> message_type = ''Output'', stream_name = Some ''stderr'',
             data = Some ''w'', msg_cwd = None \<rparr>] \<rparr>)
     = (Inr (Some \<lparr> message_type = ''Output'', stream_name = Some ''stdout'',
                    data = Some ''xz'', msg_cwd = None \<rparr>),
        init posix_platform ''/tmp'' ''/opt/thonny''
        \<lparr> message_queue := Some
          [\<lparr> message_type = ''Output'', stream_name = Some ''stderr'',
             data = Some ''y'', msg_cwd = None \<rparr>,
           \<lparr> message_type = ''Output'', stream_name = Some ''stderr'',
             data = Some ''w'', msg_cwd = None \<rparr>] \<rparr>)"
proof -
  let ?x = "\<lparr> message_type = ''Output'', stream_name = Some ''stdout'',
              data = Some ''x'', msg_cwd = None \<rparr>"
  let ?z = "\<lparr> message_type = ''Output'', stream_name = Some ''stdout'',
              data = Some ''z'', msg_cwd = None \<rparr>"
  let ?y = "\<lparr> message_type = ''Output'', stream_name = Some ''stderr'',
              data = Some ''y'', msg_cwd = None \<rparr>"
  let ?w = "\<lparr> message_type = ''Output'', stream_name = Some ''stderr'',
              data = Some ''w'', msg_cwd = None \<rparr>"
  have h1: "message_type ?x = ''Output''" by simp
  have h2: "list_all well_formed (?x # [?z] @ [?y])" by (simp add: well_formed_def)
  have h3: "list_all (same_stream ?x) [?z]" by (simp add: same_stream_def)
  have h4: "\<not> same_stream ?x ?y" by (simp add: same_stream_def)
  from fetch_next_message_stream_separation
         [OF h1 h2 h3 h4, where ys = "[?w]" and s = "init posix_platform ''/tmp'' ''/opt/thonny''"]
  show ?thesis using h1 h2 h3 h4 by (simp add: payload_def)
qed

subsection \<open>Fields after each operation\<close>

lemma set_state_fields:
  "state (set_state v s) = Some v"
  "trace (set_state v s) = trace s @ (if state s \<noteq> Some v then [SetState v] else [])"
  "cwd (set_state v s) = cwd s"
  "thonny_dir (set_state v s) = thonny_dir s"
  "proc (set_state v s) = proc s"
  "message_queue (set_state v s) = message_queue s"
  "procs (set_state v s) = procs s"
  by (simp_all add: set_state_def)

lemma kill_current_process_fields:
  "state (kill_current_process s) = state s"
  "cwd (kill_current_process s) = cwd s"
  "thonny_dir (kill_current_process s) = thonny_dir s"
  "length (procs (kill_current_process s)) = length (procs s)"
  "trace (kill_current_process s) =
     trace s @ (case proc s of None \<Rightarrow> []
                | Some h \<Rightarrow> if poll_is_None s h then [Kill h] else [])"
  by (simp_all add: kill_current_process_def update_process_def split: option.split)

lemma start_new_process_fields:
  "state (snd (start_new_process pf cmd s)) = state s"
  "cwd (snd (start_new_process pf cmd s)) = cwd s"
  "message_queue (snd (start_new_process pf cmd s)) = Some []"
  "fst (start_new_process pf cmd s) = (if launch_ok pf cmd s then None else Some OSError)"
  "proc (snd (start_new_process pf cmd s))
     = (if launch_ok pf cmd s then Some (length (procs s)) else proc s)"
  "trace (snd (start_new_process pf cmd s)) =
     trace s @ (if launch_ok pf cmd s
                then [Popen (length (procs s)), StartThread ''_listen_stdout'',
                      StartThread ''_listen_stderr'']
                else [])"
  by (simp_all add: start_new_process_def Let_def launch_ok_def worker_cmd_line_def)

lemma worker_cmd_line_unchanged:
  "worker_cmd_line pf cmd (set_state v s) = worker_cmd_line pf cmd s"
  "worker_cmd_line pf cmd (kill_current_process s) = worker_cmd_line pf cmd s"
  "worker_cmd_line pf cmd (s\<lparr> message_queue := q \<rparr>) = worker_cmd_line pf cmd s"
  by (simp_all add: worker_cmd_line_def set_state_def kill_current_process_def
      split: option.split)

lemma worker_cmd_line_ToplevelCommand:
  "worker_cmd_line pf (ToplevelCommand c f a p) s =
     backend_cmd_line pf (thonny_dir s) @
       (case f of
          None \<Rightarrow> []
        | Some name \<Rightarrow> name # (case a of None \<Rightarrow> [] | Some extra \<Rightarrow> extra))"
  by (simp add: worker_cmd_line_def split: option.split)

lemma launch_ok_unchanged:
  "launch_ok pf cmd (set_state v s) = launch_ok pf cmd s"
  "launch_ok pf cmd (kill_current_process s) = launch_ok pf cmd s"
  by (simp_all add: launch_ok_def worker_cmd_line_def set_state_def kill_current_process_def
      split: option.split)

lemma stdin_write_fields:
  "state (snd (stdin_write line s)) = state s"
  "cwd (snd (stdin_write line s)) = cwd s"
  "proc (snd (stdin_write line s)) = proc s"
  "message_queue (snd (stdin_write line s)) = message_queue s"
  "fst (stdin_write line s) = (if proc s = None then Some AttributeError else None)"
  "trace (snd (stdin_write line s)) =
     trace s @ (case proc s of None \<Rightarrow> []
                | Some h \<Rightarrow> [StdinWrite h line, StdinFlush h])"
  by (simp_all add: stdin_write_def split: option.split)

lemma command_kinds:
  "is_InlineCommand cmd
     \<longleftrightarrow> \<not> (is_ToplevelCommand cmd \<or> is_DebuggerCommand cmd \<or> is_InputSubmission cmd)"
  by (cases cmd) simp_all

lemma restarts_is_ToplevelCommand: "restarts cmd \<Longrightarrow> is_ToplevelCommand cmd"
  by (cases cmd) simp_all

text \<open>\<open>send_command\<close> by the outcome of the launch.\<close>

lemma send_command_cases:
  "send_command pf cmd s =
     (if restarts cmd
      then (if launch_ok pf cmd s
            then stdin_write (serialize_message pf cmd @ ''\<newline>'')
                   (snd (start_new_process pf cmd
                      (kill_current_process (set_state ''running'' s))))
            else (Some OSError,
                  snd (start_new_process pf cmd
                      (kill_current_process (set_state ''running'' s)))))
      else stdin_write (serialize_message pf cmd @ ''\<newline>'')
             (if is_ToplevelCommand cmd \<or> is_DebuggerCommand cmd \<or> is_InputSubmission cmd
              then set_state ''running'' s else s))"
proof (cases "restarts cmd")
  case True
  then have top: "is_ToplevelCommand cmd" by (rule restarts_is_ToplevelCommand)
  let ?k = "kill_current_process (set_state ''running'' s)"
  have ok: "launch_ok pf cmd ?k = launch_ok pf cmd s"
    by (simp add: launch_ok_unchanged)
  have "fst (start_new_process pf cmd ?k)
          = (if launch_ok pf cmd s then None else Some OSError)"
    by (simp add: start_new_process_fields ok)
  then show ?thesis using True top
    by (cases "start_new_process pf cmd ?k")
       (auto simp: send_command_def Let_def split: if_splits)
next
  case False
  then show ?thesis by (simp add: send_command_def Let_def)
qed

text \<open>The events of one call of \<open>send_command\<close>, in program order.\<close>

lemma send_command_trace:
  "trace (snd (send_command pf cmd s)) =
     trace s
     @ (if (is_ToplevelCommand cmd \<or> is_DebuggerCommand cmd \<or> is_InputSubmission cmd)
           \<and> state s \<noteq> Some ''running''
        then [SetState ''running''] else [])
     @ (if restarts cmd
        then (case proc s of None \<Rightarrow> []
              | Some h \<Rightarrow> if poll_is_None s h then [Kill h] else [])
             @ (if launch_ok pf cmd s
                then [Popen (length (procs s)), StartThread ''_listen_stdout'',
                      StartThread ''_listen_stderr'',
                      StdinWrite (length (procs s)) (serialize_message pf cmd @ ''\<newline>''),
                      StdinFlush (length (procs s))]
                else [])
        else (case proc s of
                None \<Rightarrow> []
              | Some h \<Rightarrow> [StdinWrite h (serialize_message pf cmd @ ''\<newline>''),
                           StdinFlush h]))"
proof (cases "restarts cmd")
  case True
  then have top: "is_ToplevelCommand cmd" by (rule restarts_is_ToplevelCommand)
  show ?thesis using True top
    by (simp add: send_command_cases stdin_write_fields start_new_process_fields
          kill_current_process_fields set_state_fields launch_ok_unchanged poll_is_None_def
        split: option.split)
next
  case False
  then show ?thesis
    by (simp add: send_command_cases stdin_write_fields set_state_fields split: option.split)
qed

lemma send_command_state:
  "state (snd (send_command pf cmd s)) =
     (if is_ToplevelCommand cmd \<or> is_DebuggerCommand cmd \<or> is_InputSubmission cmd
      then Some ''running'' else state s)"
proof (cases "restarts cmd")
  case True
  then have top: "is_ToplevelCommand cmd" by (rule restarts_is_ToplevelCommand)
  show ?thesis using True top
    by (simp add: send_command_cases stdin_write_fields start_new_process_fields
          kill_current_process_fields set_state_fields)
next
  case False
  then show ?thesis
    by (simp add: send_command_cases stdin_write_fields set_state_fields)
qed

lemma send_command_error:
  "fst (send_command pf cmd s)
     = (if restarts cmd then (if launch_ok pf cmd s then None else Some OSError)
        else if proc s = None then Some AttributeError else None)"
proof (cases "restarts cmd")
  case True
  then show ?thesis
    by (simp add: send_command_cases stdin_write_fields start_new_process_fields
          launch_ok_unchanged)
next
  case False
  then show ?thesis
    by (simp add: send_command_cases stdin_write_fields set_state_fields)
qed

lemma restart_queue:
  "restarts cmd \<Longrightarrow> message_queue (snd (send_command pf cmd s)) = Some []"
  by (simp add: send_command_cases stdin_write_fields start_new_process_fields)

lemma state_after_other:
  "(\<And>v. SetState v \<notin> set es) \<Longrightarrow> state_after st es = st"
  by (induction st es rule: state_after.induct) auto

lemma state_after_prefix:
  assumes split: "A @ B = pre @ StdinWrite h line # post"
    and A: "A = [] \<and> st = Some r \<or> A = [SetState r]"
    and B: "\<And>v. SetState v \<notin> set B"
  shows "state_after st pre = Some r"
proof -
  from A show ?thesis
  proof
    assume a: "A = [] \<and> st = Some r"
    with split have "set pre \<subseteq> set B" by auto
    with B have "\<And>v. SetState v \<notin> set pre" by blast
    then show ?thesis using a by (simp add: state_after_other)
  next
    assume a: "A = [SetState r]"
    with split obtain pre' where pre: "pre = SetState r # pre'" and rest: "B = pre' @ StdinWrite h line # post"
      by (cases pre) auto
    from rest B have "\<And>v. SetState v \<notin> set pre'" by auto
    then show ?thesis using pre by (simp add: state_after_other)
  qed
qed

subsection \<open>State transitions\<close>

text \<open>
  C3. \<open>send_command\<close> leaves the state at \<open>"running"\<close> when the command is a
  \<open>ToplevelCommand\<close>, a \<open>DebuggerCommand\<close> or an \<open>InputSubmission\<close>, and these are the only
  commands for which it assigns the state; an \<open>InlineCommand\<close> leaves the state as it
  was. The trace of the call shows the order: at every write to the worker's standard
  input made for one of the three kinds, the state is already \<open>"running"\<close>, and a call
  that returns without an error has written the serialized command line.
\<close>

theorem send_command_transitions:
  "trace (snd (send_command pf cmd s))
       = trace s @ new_events s (snd (send_command pf cmd s))
   \<and> state (snd (send_command pf cmd s)) =
         (if is_ToplevelCommand cmd \<or> is_DebuggerCommand cmd \<or> is_InputSubmission cmd
          then Some ''running'' else state s)
   \<and> (is_InlineCommand cmd \<longrightarrow> state (snd (send_command pf cmd s)) = state s)
   \<and> (\<forall>v. SetState v \<in> set (new_events s (snd (send_command pf cmd s))) \<longleftrightarrow>
           v = ''running'' \<and> state s \<noteq> Some ''running''
           \<and> (is_ToplevelCommand cmd \<or> is_DebuggerCommand cmd \<or> is_InputSubmission cmd))
   \<and> (\<forall>pre h line post.
           (is_ToplevelCommand cmd \<or> is_DebuggerCommand cmd \<or> is_InputSubmission cmd)
           \<and> new_events s (snd (send_command pf cmd s)) = pre @ StdinWrite h line # post
           \<longrightarrow> state_after (state s) pre = Some ''running'')
   \<and> (fst (send_command pf cmd s) = None \<longrightarrow>
           (\<exists>h. StdinWrite h (serialize_message pf cmd @ ''\<newline>'')
                  \<in> set (new_events s (snd (send_command pf cmd s)))))"
proof -
  define K where
    "K = (is_ToplevelCommand cmd \<or> is_DebuggerCommand cmd \<or> is_InputSubmission cmd)"
  define A where
    "A = (if K \<and> state s \<noteq> Some ''running'' then [SetState ''running''] else [])"
  define B where
    "B = (if restarts cmd
        then (case proc s of None \<Rightarrow> []
              | Some h \<Rightarrow> if poll_is_None s h then [Kill h] else [])
             @ (if launch_ok pf cmd s
                then [Popen (length (procs s)), StartThread ''_listen_stdout'',
                      StartThread ''_listen_stderr'',
                      StdinWrite (length (procs s)) (serialize_message pf cmd @ ''\<newline>''),
                      StdinFlush (length (procs s))]
                else [])
        else (case proc s of
                None \<Rightarrow> []
              | Some h \<Rightarrow> [StdinWrite h (serialize_message pf cmd @ ''\<newline>''),
                           StdinFlush h]))"
  have tr: "trace (snd (send_command pf cmd s)) = trace s @ (A @ B)"
    unfolding A_def B_def K_def by (rule send_command_trace)
  then have ne: "new_events s (snd (send_command pf cmd s)) = A @ B"
    by (simp add: new_events_def)
  have B: "\<And>v. SetState v \<notin> set B"
    unfolding B_def by (auto split: option.splits if_splits)
  have st: "state (snd (send_command pf cmd s)) = (if K then Some ''running'' else state s)"
    unfolding K_def by (rule send_command_state)
  have inl: "is_InlineCommand cmd \<longrightarrow> state (snd (send_command pf cmd s)) = state s"
    using st command_kinds [of cmd] by (simp add: K_def)
  have sets: "\<forall>v. SetState v \<in> set (A @ B) \<longleftrightarrow>
           v = ''running'' \<and> state s \<noteq> Some ''running'' \<and> K"
    using B by (auto simp: A_def)
  have order: "\<forall>pre h line post. K \<and> A @ B = pre @ StdinWrite h line # post
           \<longrightarrow> state_after (state s) pre = Some ''running''"
  proof (intro allI impI)
    fix pre h line post
    assume a: "K \<and> A @ B = pre @ StdinWrite h line # post"
    then have k: K and split: "A @ B = pre @ StdinWrite h line # post"
      by blast+
    from k have A: "A = [] \<and> state s = Some ''running'' \<or> A = [SetState ''running'']"
      by (simp add: A_def)
    show "state_after (state s) pre = Some ''running''"
      by (rule state_after_prefix [OF split A B])
  qed
  have "fst (send_command pf cmd s) = None \<longrightarrow>
          (\<exists>h. StdinWrite h (serialize_message pf cmd @ ''\<newline>'') \<in> set B)"
    unfolding B_def
    by (auto simp: send_command_error split: option.splits if_splits)
  then have written: "fst (send_command pf cmd s) = None \<longrightarrow>
          (\<exists>h. StdinWrite h (serialize_message pf cmd @ ''\<newline>'') \<in> set (A @ B))"
    by auto
  show ?thesis
    unfolding ne K_def [symmetric]
    by (intro conjI tr st inl sets order written)
qed

lemma waiting_proxy_fields:
  "proc waiting_proxy = Some 0"
  "state waiting_proxy = Some ''waiting_input''"
  "cwd waiting_proxy = ''/tmp/x''"
  "message_queue waiting_proxy = Some [input_request]"
  "length (procs waiting_proxy) = 1"
  "alive (procs waiting_proxy ! 0)"
  "trace waiting_proxy =
     [SetState ''running'', Popen 0, StartThread ''_listen_stdout'',
      StartThread ''_listen_stderr'', StdinWrite 0 ''ToplevelCommand Run\<newline>'',
      StdinFlush 0, SetState ''waiting_input'']"
  by (simp_all add: waiting_proxy_def fresh_proxy_def run_script_def input_request_def
        run_def send_command_def init_def Let_def set_state_def kill_current_process_def
        start_new_process_def stdin_write_def update_process_def listen_stdout_step_def
        posix_platform_def)

theorem send_command_transitions_witness:
  "is_InputSubmission (InputSubmission ''42'')
   \<and> fst (send_command posix_platform (InputSubmission ''42'') waiting_proxy) = None
   \<and> state waiting_proxy = Some ''waiting_input''
   \<and> state (snd (send_command posix_platform (InputSubmission ''42'') waiting_proxy))
       = Some ''running''
   \<and> new_events waiting_proxy
        (snd (send_command posix_platform (InputSubmission ''42'') waiting_proxy))
       = [SetState ''running''] @ StdinWrite 0 ''InputSubmission 42\<newline>'' # [StdinFlush 0]
   \<and> state_after (state waiting_proxy) [SetState ''running''] = Some ''running''"
proof -
  let ?s' = "snd (send_command posix_platform (InputSubmission ''42'') waiting_proxy)"
  have ser: "serialize_message posix_platform (InputSubmission ''42'') = ''InputSubmission 42''"
    by (simp add: posix_platform_def)
  have ev: "new_events waiting_proxy ?s'
       = [SetState ''running''] @ StdinWrite 0 ''InputSubmission 42\<newline>'' # [StdinFlush 0]"
    by (simp add: new_events_def send_command_trace waiting_proxy_fields ser)
  have ok: "fst (send_command posix_platform (InputSubmission ''42'') waiting_proxy) = None"
    by (simp add: send_command_def Let_def stdin_write_fields set_state_fields
          waiting_proxy_fields)
  note inst = send_command_transitions
               [of posix_platform "InputSubmission ''42''" waiting_proxy]
  have st: "state ?s' = Some ''running''"
    using inst [THEN conjunct2, THEN conjunct1] by simp
  have order: "is_InputSubmission (InputSubmission ''42'')
      \<and> new_events waiting_proxy ?s'
          = [SetState ''running''] @ StdinWrite 0 ''InputSubmission 42\<newline>'' # [StdinFlush 0]
      \<longrightarrow> state_after (state waiting_proxy) [SetState ''running''] = Some ''running''"
    using inst [THEN conjunct2, THEN conjunct2, THEN conjunct2, THEN conjunct2, THEN conjunct1,
               THEN spec, THEN spec, THEN spec, THEN spec,
               of "[SetState ''running'']" 0 "''InputSubmission 42\<newline>''" "[StdinFlush 0]"]
    by simp
  with ev have "state_after (state waiting_proxy) [SetState ''running''] = Some ''running''"
    by simp
  with ev ok st show ?thesis by (simp add: waiting_proxy_fields)
qed

text \<open>
  C4. When the reader appends a message to the queue, the new state is a function of the
  message type: \<open>ToplevelResult\<close> gives \<open>waiting_toplevel_command\<close>, \<open>DebuggerProgress\<close>
  gives \<open>waiting_debug_command\<close>, \<open>InputRequest\<close> gives \<open>waiting_input\<close>, and any other type
  leaves the state as it was. Without a queue nothing is appended, the append raises and
  the state stays.
\<close>

theorem listen_stdout_transitions:
  "(message_queue s = Some q \<longrightarrow>
      fst (listen_stdout_step msg s) = None
      \<and> message_queue (snd (listen_stdout_step msg s)) = Some (q @ [msg])
      \<and> get_state (snd (listen_stdout_step msg s)) =
          (if message_type msg = ''ToplevelResult'' then Some ''waiting_toplevel_command''
           else if message_type msg = ''DebuggerProgress'' then Some ''waiting_debug_command''
           else if message_type msg = ''InputRequest'' then Some ''waiting_input''
           else get_state s))
   \<and> (message_queue s = None \<longrightarrow>
      fst (listen_stdout_step msg s) = Some AttributeError
      \<and> message_queue (snd (listen_stdout_step msg s)) = None
      \<and> get_state (snd (listen_stdout_step msg s)) = get_state s)"
  by (simp add: listen_stdout_step_def Let_def get_state_def set_state_fields
      split: option.split)

theorem listen_stdout_transitions_witness:
  "message_queue waiting_proxy = Some [input_request]
   \<and> get_state waiting_proxy = Some ''waiting_input''
   \<and> fst (listen_stdout_step
        \<lparr> message_type = ''ToplevelResult'', stream_name = None, data = None,
          msg_cwd = None \<rparr> waiting_proxy) = None
   \<and> message_queue (snd (listen_stdout_step
        \<lparr> message_type = ''ToplevelResult'', stream_name = None, data = None,
          msg_cwd = None \<rparr> waiting_proxy))
      = Some [input_request,
              \<lparr> message_type = ''ToplevelResult'', stream_name = None, data = None,
                msg_cwd = None \<rparr>]
   \<and> get_state (snd (listen_stdout_step
        \<lparr> message_type = ''ToplevelResult'', stream_name = None, data = None,
          msg_cwd = None \<rparr> waiting_proxy))
      = Some ''waiting_toplevel_command''
   \<and> message_queue fresh_proxy = None
   \<and> fst (listen_stdout_step input_request fresh_proxy) = Some AttributeError
   \<and> get_state (snd (listen_stdout_step input_request fresh_proxy)) = get_state fresh_proxy"
proof -
  have q: "message_queue waiting_proxy = Some [input_request]"
    by (rule waiting_proxy_fields)
  have n: "message_queue fresh_proxy = None"
    by (simp add: fresh_proxy_def init_def)
  have g: "get_state waiting_proxy = Some ''waiting_input''"
    by (simp add: get_state_def waiting_proxy_fields)
  from listen_stdout_transitions
         [of waiting_proxy "[input_request]"
             "\<lparr> message_type = ''ToplevelResult'', stream_name = None, data = None,
                msg_cwd = None \<rparr>", THEN conjunct1, rule_format, OF q]
       listen_stdout_transitions
         [of fresh_proxy "[]" input_request, THEN conjunct2, rule_format, OF n]
  show ?thesis using q n g by simp
qed

subsection \<open>The working directory\<close>

text \<open>
  C7. A message that carries \<open>cwd\<close> sets the tracked working directory to that value,
  whatever its \<open>message_type\<close> is and whether or not it can be appended; a message without
  \<open>cwd\<close> leaves the working directory as it was.
\<close>

theorem listen_stdout_cwd:
  "get_cwd (snd (listen_stdout_step msg s))
     = (case msg_cwd msg of Some c \<Rightarrow> c | None \<Rightarrow> get_cwd s)"
  by (simp add: listen_stdout_step_def Let_def get_cwd_def set_state_fields
      split: option.split)

theorem listen_stdout_cwd_witness:
  "get_cwd fresh_proxy = ''/tmp''
   \<and> get_cwd (snd (listen_stdout_step
        \<lparr> message_type = ''Output'', stream_name = Some ''stdout'', data = Some ''a'',
          msg_cwd = Some ''/tmp/x'' \<rparr> waiting_proxy)) = ''/tmp/x''
   \<and> get_cwd (snd (listen_stdout_step
        \<lparr> message_type = ''Other'', stream_name = None, data = None,
          msg_cwd = Some ''/tmp/y'' \<rparr> fresh_proxy)) = ''/tmp/y''
   \<and> get_cwd (snd (listen_stdout_step
        \<lparr> message_type = ''ToplevelResult'', stream_name = None, data = None,
          msg_cwd = None \<rparr> fresh_proxy)) = ''/tmp''"
proof -
  have c: "get_cwd fresh_proxy = ''/tmp''"
    by (simp add: get_cwd_def fresh_proxy_def init_def posix_platform_def)
  from listen_stdout_cwd
         [of "\<lparr> message_type = ''Output'', stream_name = Some ''stdout'', data = Some ''a'',
                msg_cwd = Some ''/tmp/x'' \<rparr>" waiting_proxy]
       listen_stdout_cwd
         [of "\<lparr> message_type = ''Other'', stream_name = None, data = None,
                msg_cwd = Some ''/tmp/y'' \<rparr>" fresh_proxy]
       listen_stdout_cwd
         [of "\<lparr> message_type = ''ToplevelResult'', stream_name = None, data = None,
                msg_cwd = None \<rparr>" fresh_proxy]
  show ?thesis using c by simp
qed

lemma fresh_proxy_fields:
  "proc fresh_proxy = None"
  "state fresh_proxy = None"
  "message_queue fresh_proxy = None"
  "procs fresh_proxy = []"
  "trace fresh_proxy = []"
  "cwd fresh_proxy = ''/tmp''"
  by (simp_all add: fresh_proxy_def init_def posix_platform_def)

lemma exited_proxy_eq: "exited_proxy = process_exits 0 waiting_proxy"
  by (simp add: exited_proxy_def waiting_proxy_def run_def)

lemma exited_proxy_fields:
  "proc exited_proxy = Some 0"
  "state exited_proxy = Some ''waiting_input''"
  "message_queue exited_proxy = Some [input_request]"
  "length (procs exited_proxy) = 1"
  "\<not> alive (procs exited_proxy ! 0)"
  "\<not> poll_is_None exited_proxy 0"
  by (simp_all add: exited_proxy_eq process_exits_def update_process_def poll_is_None_def
        waiting_proxy_fields)

subsection \<open>Killing the worker\<close>

text \<open>
  C8. \<open>_kill_current_process\<close> changes nothing when there is no process or when the
  process has already exited, and it has no raising branch. On a running worker it kills
  the process, drops the handle and drops the queue with the messages still in it. A
  second call in a row changes nothing more.
\<close>

theorem kill_current_process_effect:
  "((proc s = None \<or> (\<exists>h. proc s = Some h \<and> \<not> poll_is_None s h))
       \<longrightarrow> kill_current_process s = s)
   \<and> (proc s = Some h \<and> poll_is_None s h \<longrightarrow>
        proc (kill_current_process s) = None
        \<and> message_queue (kill_current_process s) = None
        \<and> \<not> alive (procs (kill_current_process s) ! h)
        \<and> \<not> poll_is_None (kill_current_process s) h
        \<and> new_events s (kill_current_process s) = [Kill h]
        \<and> state (kill_current_process s) = state s
        \<and> cwd (kill_current_process s) = cwd s)
   \<and> kill_current_process (kill_current_process s) = kill_current_process s"
  by (auto simp: kill_current_process_def poll_is_None_def update_process_def new_events_def
      split: option.splits)

theorem kill_current_process_effect_witness:
  "proc fresh_proxy = None
   \<and> kill_current_process fresh_proxy = fresh_proxy
   \<and> proc exited_proxy = Some 0 \<and> \<not> poll_is_None exited_proxy 0
   \<and> kill_current_process exited_proxy = exited_proxy
   \<and> proc waiting_proxy = Some 0 \<and> poll_is_None waiting_proxy 0
   \<and> message_queue waiting_proxy = Some [input_request]
   \<and> proc (kill_current_process waiting_proxy) = None
   \<and> message_queue (kill_current_process waiting_proxy) = None
   \<and> \<not> alive (procs (kill_current_process waiting_proxy) ! 0)
   \<and> new_events waiting_proxy (kill_current_process waiting_proxy) = [Kill 0]"
proof -
  have a: "proc fresh_proxy = None" by (rule fresh_proxy_fields)
  have b: "proc exited_proxy = Some 0 \<and> \<not> poll_is_None exited_proxy 0"
    by (simp add: exited_proxy_fields)
  have c: "proc waiting_proxy = Some 0 \<and> poll_is_None waiting_proxy 0"
    by (simp add: waiting_proxy_fields poll_is_None_def)
  from a have a': "proc fresh_proxy = None
      \<or> (\<exists>h. proc fresh_proxy = Some h \<and> \<not> poll_is_None fresh_proxy h)" by simp
  from b have b': "proc exited_proxy = None
      \<or> (\<exists>h. proc exited_proxy = Some h \<and> \<not> poll_is_None exited_proxy h)" by simp
  note k1 = kill_current_process_effect [of fresh_proxy 0, THEN conjunct1, rule_format, OF a']
  note k2 = kill_current_process_effect [of exited_proxy 0, THEN conjunct1, rule_format, OF b']
  note k3 = kill_current_process_effect
              [of waiting_proxy 0, THEN conjunct2, THEN conjunct1, rule_format, OF c]
  from k1 k2 k3 a b c show ?thesis by (simp add: waiting_proxy_fields)
qed

subsection \<open>Fetching without messages\<close>

text \<open>
  A worker that has exited by itself with a message still in the queue: the proxy keeps
  its handle and its queue, and \<open>fetch_next_message\<close> returns the message.
\<close>

theorem fetch_after_exit_counterexample:
  "proc exited_proxy = Some 0
   \<and> \<not> poll_is_None exited_proxy 0
   \<and> fst (fetch_next_message exited_proxy) = Inr (Some input_request)
   \<and> fst (fetch_next_message exited_proxy) \<noteq> Inr None"
  by (simp add: exited_proxy_fields fetch_next_message_def input_request_def)

text \<open>
  C9, amended. \<open>fetch_next_message\<close> returns \<open>None\<close> and changes nothing whenever there is
  no queue or the queue is empty: before the first worker is started, after a running
  worker has been killed, and right after a restart. It never looks at the process: a
  worker that exits by itself leaves the queue in place, and the messages in it are
  still returned.
\<close>

theorem fetch_next_message_empty:
  "((message_queue s = None \<or> message_queue s = Some [])
       \<longrightarrow> fetch_next_message s = (Inr None, s))
   \<and> fetch_next_message (init pf default_cwd main_dir)
       = (Inr None, init pf default_cwd main_dir)
   \<and> (proc s = Some h \<and> poll_is_None s h \<longrightarrow>
        fetch_next_message (kill_current_process s) = (Inr None, kill_current_process s))
   \<and> (restarts cmd \<longrightarrow>
        fst (fetch_next_message (snd (send_command pf cmd s))) = Inr None)
   \<and> message_queue (process_exits h s) = message_queue s
   \<and> fst (fetch_next_message (process_exits h s)) = fst (fetch_next_message s)"
proof -
  have empty: "\<And>t. message_queue t = None \<or> message_queue t = Some []
      \<Longrightarrow> fetch_next_message t = (Inr None, t)"
    by (auto simp: fetch_next_message_def)
  have a: "(message_queue s = None \<or> message_queue s = Some [])
       \<longrightarrow> fetch_next_message s = (Inr None, s)"
    using empty by blast
  have b: "fetch_next_message (init pf default_cwd main_dir)
       = (Inr None, init pf default_cwd main_dir)"
    by (rule empty) (simp add: init_def)
  have c: "proc s = Some h \<and> poll_is_None s h \<longrightarrow>
        fetch_next_message (kill_current_process s) = (Inr None, kill_current_process s)"
  proof
    assume "proc s = Some h \<and> poll_is_None s h"
    then have "message_queue (kill_current_process s) = None"
      by (simp add: kill_current_process_def)
    then show "fetch_next_message (kill_current_process s) = (Inr None, kill_current_process s)"
      by (simp add: empty)
  qed
  have d: "restarts cmd \<longrightarrow>
        fst (fetch_next_message (snd (send_command pf cmd s))) = Inr None"
    by (simp add: restart_queue empty)
  have e: "message_queue (process_exits h s) = message_queue s"
    by (simp add: process_exits_def)
  have f: "fst (fetch_next_message (process_exits h s)) = fst (fetch_next_message s)"
    by (simp add: fetch_next_message_def process_exits_def
        split: option.split list.split prod.split sum.split)
  from a b c d e f show ?thesis by (intro conjI)
qed

theorem fetch_next_message_empty_witness:
  "message_queue fresh_proxy = None
   \<and> fetch_next_message fresh_proxy = (Inr None, fresh_proxy)
   \<and> proc waiting_proxy = Some 0 \<and> poll_is_None waiting_proxy 0
   \<and> fetch_next_message (kill_current_process waiting_proxy)
       = (Inr None, kill_current_process waiting_proxy)
   \<and> restarts run_script
   \<and> fst (fetch_next_message (snd (send_command posix_platform run_script waiting_proxy)))
       = Inr None
   \<and> fst (fetch_next_message (process_exits 0 waiting_proxy)) = Inr (Some input_request)"
proof -
  have a: "message_queue fresh_proxy = None \<or> message_queue fresh_proxy = Some []"
    by (simp add: fresh_proxy_fields)
  have c: "proc waiting_proxy = Some 0 \<and> poll_is_None waiting_proxy 0"
    by (simp add: waiting_proxy_fields poll_is_None_def)
  have r: "restarts run_script" by (simp add: run_script_def)
  note inst = fetch_next_message_empty
  note f1 = inst [where s = fresh_proxy, THEN conjunct1, rule_format, OF a]
  note f2 = inst [where s = waiting_proxy and h = 0, THEN conjunct2, THEN conjunct2, THEN conjunct1,
                  rule_format, OF c]
  note f3 = inst [where pf = posix_platform and cmd = run_script and s = waiting_proxy,
                  THEN conjunct2, THEN conjunct2, THEN conjunct2, THEN conjunct1,
                  rule_format, OF r]
  note f4 = inst [where s = waiting_proxy and h = 0, THEN conjunct2, THEN conjunct2, THEN conjunct2,
                  THEN conjunct2, THEN conjunct2]
  have g: "fst (fetch_next_message waiting_proxy) = Inr (Some input_request)"
    by (simp add: fetch_next_message_def waiting_proxy_fields input_request_def)
  from f1 f2 f3 f4 g a c r show ?thesis by (simp add: fresh_proxy_fields)
qed

subsection \<open>Sending without a worker\<close>

lemma restarts_iff:
  "restarts cmd \<longleftrightarrow>
     (\<exists>c f a p. cmd = ToplevelCommand c f a p \<and> (c = ''Run'' \<or> c = ''Debug'' \<or> c = ''Reset''))"
  by (cases cmd) auto

text \<open>
  C10. With no process handle (after construction, or after a running worker has been
  killed) \<open>send_command\<close> raises \<open>AttributeError\<close> at the write exactly when the command
  does not restart the worker, that is when it is not a \<open>ToplevelCommand\<close> named \<open>Run\<close>,
  \<open>Debug\<close> or \<open>Reset\<close>: an \<open>InlineCommand\<close>, an \<open>InputSubmission\<close>, a \<open>DebuggerCommand\<close> and
  the \<open>ToplevelCommand\<close> \<open>cd\<close> all fail, and nothing is written. The three restarting
  commands never fail in this way: they return without an error when the launch of the
  new worker succeeds, and the launch raises \<open>OSError\<close> when it does not.
\<close>

theorem send_command_without_worker:
  "(proc s = None \<longrightarrow>
      (fst (send_command pf cmd s) = Some AttributeError \<longleftrightarrow> \<not> restarts cmd)
      \<and> (restarts cmd \<longrightarrow>
            fst (send_command pf cmd s)
              = (if launch_ok pf cmd s then None else Some OSError))
      \<and> (launch_ok pf cmd s \<longrightarrow> (fst (send_command pf cmd s) = None \<longleftrightarrow> restarts cmd))
      \<and> (\<not> restarts cmd \<longrightarrow>
            proc (snd (send_command pf cmd s)) = None
            \<and> procs (snd (send_command pf cmd s)) = procs s
            \<and> (\<forall>h line. StdinWrite h line
                  \<notin> set (new_events s (snd (send_command pf cmd s))))))
   \<and> (restarts cmd \<longleftrightarrow>
        (\<exists>c f a p. cmd = ToplevelCommand c f a p
           \<and> (c = ''Run'' \<or> c = ''Debug'' \<or> c = ''Reset'')))
   \<and> \<not> restarts (InlineCommand c) \<and> \<not> restarts (InputSubmission d)
   \<and> \<not> restarts (DebuggerCommand x) \<and> \<not> restarts (ToplevelCommand ''cd'' f a p)
   \<and> proc (init pf default_cwd main_dir) = None
   \<and> (proc s = Some h \<and> poll_is_None s h \<longrightarrow> proc (kill_current_process s) = None)"
proof -
  have a: "proc s = None \<longrightarrow>
      (fst (send_command pf cmd s) = Some AttributeError \<longleftrightarrow> \<not> restarts cmd)
      \<and> (restarts cmd \<longrightarrow>
            fst (send_command pf cmd s)
              = (if launch_ok pf cmd s then None else Some OSError))
      \<and> (launch_ok pf cmd s \<longrightarrow> (fst (send_command pf cmd s) = None \<longleftrightarrow> restarts cmd))
      \<and> (\<not> restarts cmd \<longrightarrow>
            proc (snd (send_command pf cmd s)) = None
            \<and> procs (snd (send_command pf cmd s)) = procs s
            \<and> (\<forall>h line. StdinWrite h line
                  \<notin> set (new_events s (snd (send_command pf cmd s)))))"
    by (simp add: send_command_error new_events_def send_command_trace)
       (simp add: send_command_cases stdin_write_def set_state_fields)
  have b: "proc (init pf default_cwd main_dir) = None"
    by (simp add: init_def)
  have c: "proc s = Some h \<and> poll_is_None s h \<longrightarrow> proc (kill_current_process s) = None"
    by (simp add: kill_current_process_def)
  have d: "\<not> restarts (InlineCommand c) \<and> \<not> restarts (InputSubmission d)
   \<and> \<not> restarts (DebuggerCommand x) \<and> \<not> restarts (ToplevelCommand ''cd'' f a p)"
    by simp
  from a restarts_iff [of cmd] d b c show ?thesis by (intro conjI) simp_all
qed

theorem send_command_without_worker_witness:
  "proc fresh_proxy = None
   \<and> \<not> restarts (InlineCommand ''tkupdate'')
   \<and> fst (send_command posix_platform (InlineCommand ''tkupdate'') fresh_proxy)
       = Some AttributeError
   \<and> fst (send_command posix_platform (InputSubmission ''42'') fresh_proxy)
       = Some AttributeError
   \<and> fst (send_command posix_platform (DebuggerCommand ''step'') fresh_proxy)
       = Some AttributeError
   \<and> fst (send_command posix_platform
            (ToplevelCommand ''cd'' None None (Some ''/tmp'')) fresh_proxy)
       = Some AttributeError
   \<and> restarts run_script
   \<and> launch_ok posix_platform run_script fresh_proxy
   \<and> fst (send_command posix_platform run_script fresh_proxy) = None
   \<and> proc (snd (listen_stdout_step gone_message fresh_proxy)) = None
   \<and> \<not> launch_ok posix_platform run_script
           (snd (listen_stdout_step gone_message fresh_proxy))
   \<and> fst (send_command posix_platform run_script
            (snd (listen_stdout_step gone_message fresh_proxy))) = Some OSError
   \<and> proc waiting_proxy = Some 0 \<and> poll_is_None waiting_proxy 0
   \<and> fst (send_command posix_platform (InputSubmission ''42'')
            (kill_current_process waiting_proxy))
       = Some AttributeError"
proof -
  have n: "proc fresh_proxy = None" by (rule fresh_proxy_fields)
  have l: "launch_ok posix_platform run_script fresh_proxy"
    by (simp add: launch_ok_def fresh_proxy_fields) (simp add: posix_platform_def)
  have g: "proc (snd (listen_stdout_step gone_message fresh_proxy)) = None
      \<and> cwd (snd (listen_stdout_step gone_message fresh_proxy)) = ''/gone''"
    by (simp add: listen_stdout_step_def gone_message_def fresh_proxy_fields)
  then have gp: "proc (snd (listen_stdout_step gone_message fresh_proxy)) = None" ..
  have gl: "\<not> launch_ok posix_platform run_script
               (snd (listen_stdout_step gone_message fresh_proxy))"
    using g by (simp add: launch_ok_def) (simp add: posix_platform_def)
  have c: "proc waiting_proxy = Some 0 \<and> poll_is_None waiting_proxy 0"
    by (simp add: waiting_proxy_fields poll_is_None_def)
  have r: "restarts run_script" by (simp add: run_script_def)
  note inst = send_command_without_worker
  note k = inst [where s = waiting_proxy and h = 0, THEN conjunct2, THEN conjunct2,
                 THEN conjunct2, THEN conjunct2, THEN conjunct2, THEN conjunct2,
                 THEN conjunct2, rule_format, OF c]
  note w = inst [where pf = posix_platform and s = fresh_proxy, THEN conjunct1,
                 rule_format, OF n]
  note w' = inst [where pf = posix_platform and s = "kill_current_process waiting_proxy",
                 THEN conjunct1, rule_format, OF k]
  note w'' = inst [where pf = posix_platform
                     and s = "snd (listen_stdout_step gone_message fresh_proxy)",
                   THEN conjunct1, rule_format, OF gp]
  from w [where cmd = "InlineCommand ''tkupdate''"]
       w [where cmd = "InputSubmission ''42''"]
       w [where cmd = "DebuggerCommand ''step''"]
       w [where cmd = "ToplevelCommand ''cd'' None None (Some ''/tmp'')"]
       w [where cmd = run_script]
       w' [where cmd = "InputSubmission ''42''"]
       w'' [where cmd = run_script]
       n c r l gp gl
  show ?thesis by simp
qed

subsection \<open>The values of the state\<close>

lemma fetch_next_message_state: "state (snd (fetch_next_message s)) = state s"
  by (simp add: fetch_next_message_def split: option.split list.split prod.split sum.split)

lemma listen_stdout_step_state:
  "state (snd (listen_stdout_step msg s))
     \<in> {state s, Some ''waiting_toplevel_command'', Some ''waiting_debug_command'',
         Some ''waiting_input''}"
  by (simp add: listen_stdout_step_def Let_def set_state_fields split: option.split)

lemma step_state:
  assumes "state s \<in> {None, Some ''running'', Some ''waiting_input'',
             Some ''waiting_debug_command'', Some ''waiting_toplevel_command''}"
  shows "state (step pf s a) \<in> {None, Some ''running'', Some ''waiting_input'',
             Some ''waiting_debug_command'', Some ''waiting_toplevel_command''}"
proof (cases a)
  case (Send cmd)
  then show ?thesis using assms by (simp add: send_command_state)
next
  case Fetch
  then show ?thesis using assms by (simp add: fetch_next_message_state)
next
  case (Receive msg)
  then show ?thesis using assms listen_stdout_step_state [of msg s] by auto
next
  case (Exit h)
  then show ?thesis using assms by (simp add: process_exits_def)
qed

lemma run_state:
  "state s \<in> {None, Some ''running'', Some ''waiting_input'',
             Some ''waiting_debug_command'', Some ''waiting_toplevel_command''}
   \<Longrightarrow> state (run pf s acts) \<in> {None, Some ''running'', Some ''waiting_input'',
             Some ''waiting_debug_command'', Some ''waiting_toplevel_command''}"
  unfolding run_def
proof (induction acts arbitrary: s)
  case Nil
  then show ?case by simp
next
  case (Cons a acts)
  have "state (step pf s a) \<in> {None, Some ''running'', Some ''waiting_input'',
             Some ''waiting_debug_command'', Some ''waiting_toplevel_command''}"
    by (rule step_state) (rule Cons.prems)
  then show ?case using Cons.IH by simp
qed

text \<open>
  The proxy right after construction: \<open>get_state\<close> returns \<open>None\<close>, which is none of the
  five names.
\<close>

theorem get_state_initial_counterexample:
  "get_state (init posix_platform ''/tmp'' ''/opt/thonny'') = None
   \<and> get_state (init posix_platform ''/tmp'' ''/opt/thonny'')
       \<notin> {Some ''not_started'', Some ''running'', Some ''waiting_input'',
           Some ''waiting_debug_command'', Some ''waiting_toplevel_command''}"
  by (simp add: get_state_def init_def)

text \<open>
  C6, amended. After construction \<open>get_state\<close> returns \<open>None\<close>. After any run of commands
  sent, messages fetched, messages received and worker exits, it returns \<open>None\<close> or one of
  the four names \<open>running\<close>, \<open>waiting_input\<close>, \<open>waiting_debug_command\<close> and
  \<open>waiting_toplevel_command\<close>; it never returns \<open>not_started\<close>.
\<close>

theorem get_state_domain:
  "get_state (init pf default_cwd main_dir) = None
   \<and> get_state (run pf (init pf default_cwd main_dir) acts)
       \<in> {None, Some ''running'', Some ''waiting_input'',
           Some ''waiting_debug_command'', Some ''waiting_toplevel_command''}
   \<and> get_state (run pf (init pf default_cwd main_dir) acts) \<noteq> Some ''not_started''"
proof -
  have i: "state (init pf default_cwd main_dir) = None"
    by (simp add: init_def)
  then have "state (init pf default_cwd main_dir)
       \<in> {None, Some ''running'', Some ''waiting_input'',
           Some ''waiting_debug_command'', Some ''waiting_toplevel_command''}"
    by simp
  then have r: "state (run pf (init pf default_cwd main_dir) acts)
       \<in> {None, Some ''running'', Some ''waiting_input'',
           Some ''waiting_debug_command'', Some ''waiting_toplevel_command''}"
    by (rule run_state)
  then have "state (run pf (init pf default_cwd main_dir) acts) \<noteq> Some ''not_started''"
    by auto
  with i r show ?thesis by (simp add: get_state_def)
qed

theorem get_state_domain_witness:
  "get_state (run posix_platform (init posix_platform ''/tmp'' ''/opt/thonny'')
       [Send run_script, Receive input_request]) = Some ''waiting_input''
   \<and> get_state (run posix_platform (init posix_platform ''/tmp'' ''/opt/thonny'')
       [Send run_script, Receive input_request])
       \<in> {None, Some ''running'', Some ''waiting_input'',
           Some ''waiting_debug_command'', Some ''waiting_toplevel_command''}
   \<and> get_state (init posix_platform ''/tmp'' ''/opt/thonny'') = None"
proof -
  have "get_state (run posix_platform (init posix_platform ''/tmp'' ''/opt/thonny'')
       [Send run_script, Receive input_request]) = Some ''waiting_input''"
    using waiting_proxy_fields(2) by (simp add: get_state_def waiting_proxy_def fresh_proxy_def)
  with get_state_domain
         [of posix_platform "''/tmp''" "''/opt/thonny''"
             "[Send run_script, Receive input_request]"]
  show ?thesis by simp
qed

subsection \<open>Restarting the worker\<close>

lemma backend_cmd_line_posix:
  "backend_cmd_line posix_platform ''/opt/thonny''
     = [''/usr/bin/python3'', ''-u'', ''/opt/thonny/thonny_backend.py'']"
  by (simp add: backend_cmd_line_def posix_platform_def str_lower_def lower_char_def)

lemma thonny_dir_waiting_proxy: "thonny_dir waiting_proxy = ''/opt/thonny''"
  by (simp add: waiting_proxy_def fresh_proxy_def run_script_def input_request_def
        run_def send_command_def init_def Let_def set_state_def kill_current_process_def
        start_new_process_def stdin_write_def update_process_def listen_stdout_step_def)

lemma stdin_write_procs:
  "length (procs (snd (stdin_write line s))) = length (procs s)"
  "map alive (procs (snd (stdin_write line s))) = map alive (procs s)"
  by (simp_all add: stdin_write_def update_process_def map_update list_update_same_conv
      split: option.split)

text \<open>
  C5. For a \<open>ToplevelCommand\<close> named \<open>Run\<close>, \<open>Debug\<close> or \<open>Reset\<close>, \<open>send_command\<close> kills the
  current worker if it runs and then starts a new worker. When the launch succeeds, it
  writes the command line only after it, to the new worker. The new worker has an empty
  queue; its arguments are the command line of the backend followed by the file name of
  the command, when it has one, and then by its extra arguments, when it has them; its
  environment is the environment of the proxy with \<open>PYTHONIOENCODING\<close> set to \<open>UTF-8\<close> and
  \<open>PYTHONUNBUFFERED\<close> set to \<open>1\<close>; its working directory is the tracked one. When the
  launch raises, the call ends with \<open>OSError\<close>: the state is \<open>running\<close>, the queue is the
  new empty one, the old worker is killed, there is no new process and nothing is
  written. Any other command kills and starts nothing.
\<close>

theorem send_command_restart:
  "((c = ''Run'' \<or> c = ''Debug'' \<or> c = ''Reset'') \<and> launch_ok pf (ToplevelCommand c f a p) s \<longrightarrow>
      (let r = send_command pf (ToplevelCommand c f a p) s;
           n = length (procs s);
           line = serialize_message pf (ToplevelCommand c f a p) @ ''\<newline>''
       in fst r = None
          \<and> proc (snd r) = Some n
          \<and> message_queue (snd r) = Some []
          \<and> procs (snd r) =
              (case proc s of
                 None \<Rightarrow> procs s
               | Some h \<Rightarrow>
                   if poll_is_None s h
                   then (procs s)[h := (procs s ! h)\<lparr> alive := False \<rparr>]
                   else procs s)
              @ [\<lparr> p_args = backend_cmd_line pf (thonny_dir s) @
                     (case f of
                        None \<Rightarrow> []
                      | Some name \<Rightarrow> name # (case a of None \<Rightarrow> [] | Some extra \<Rightarrow> extra)),
                   p_env = (os_environ pf)(''PYTHONIOENCODING'' \<mapsto> ''UTF-8'',
                                           ''PYTHONUNBUFFERED'' \<mapsto> ''1''),
                   p_cwd = cwd s,
                   alive = True,
                   stdin_data = [line] \<rparr>]
          \<and> new_events s (snd r) =
              (if state s \<noteq> Some ''running'' then [SetState ''running''] else [])
              @ (case proc s of
                   None \<Rightarrow> []
                 | Some h \<Rightarrow> if poll_is_None s h then [Kill h] else [])
              @ [Popen n, StartThread ''_listen_stdout'', StartThread ''_listen_stderr'',
                 StdinWrite n line, StdinFlush n]))
   \<and> ((c = ''Run'' \<or> c = ''Debug'' \<or> c = ''Reset'') \<and> \<not> launch_ok pf (ToplevelCommand c f a p) s \<longrightarrow>
      (let r = send_command pf (ToplevelCommand c f a p) s
       in fst r = Some OSError
          \<and> state (snd r) = Some ''running''
          \<and> message_queue (snd r) = Some []
          \<and> proc (snd r) =
              (case proc s of
                 None \<Rightarrow> None
               | Some h \<Rightarrow> if poll_is_None s h then None else Some h)
          \<and> procs (snd r) =
              (case proc s of
                 None \<Rightarrow> procs s
               | Some h \<Rightarrow>
                   if poll_is_None s h
                   then (procs s)[h := (procs s ! h)\<lparr> alive := False \<rparr>]
                   else procs s)
          \<and> new_events s (snd r) =
              (if state s \<noteq> Some ''running'' then [SetState ''running''] else [])
              @ (case proc s of
                   None \<Rightarrow> []
                 | Some h \<Rightarrow> if poll_is_None s h then [Kill h] else [])))
   \<and> launch_ok pf (ToplevelCommand c f a p) s =
        launch_succeeds pf
          (backend_cmd_line pf (thonny_dir s) @
             (case f of
                None \<Rightarrow> []
              | Some name \<Rightarrow> name # (case a of None \<Rightarrow> [] | Some extra \<Rightarrow> extra)))
          ((os_environ pf)(''PYTHONIOENCODING'' \<mapsto> ''UTF-8'',
                           ''PYTHONUNBUFFERED'' \<mapsto> ''1''))
          (cwd s)
   \<and> (\<not> restarts cmd \<longrightarrow>
        proc (snd (send_command pf cmd s)) = proc s
        \<and> message_queue (snd (send_command pf cmd s)) = message_queue s
        \<and> length (procs (snd (send_command pf cmd s))) = length (procs s)
        \<and> map alive (procs (snd (send_command pf cmd s))) = map alive (procs s)
        \<and> (\<forall>h. Kill h \<notin> set (new_events s (snd (send_command pf cmd s)))
                \<and> Popen h \<notin> set (new_events s (snd (send_command pf cmd s)))))
   \<and> (restarts cmd \<longleftrightarrow>
        (\<exists>c f a p. cmd = ToplevelCommand c f a p
           \<and> (c = ''Run'' \<or> c = ''Debug'' \<or> c = ''Reset'')))"
proof -
  let ?cmd = "ToplevelCommand c f a p"
  have killed: "procs (kill_current_process (set_state ''running'' s)) =
              (case proc s of
                 None \<Rightarrow> procs s
               | Some h \<Rightarrow>
                   if poll_is_None s h
                   then (procs s)[h := (procs s ! h)\<lparr> alive := False \<rparr>]
                   else procs s)"
      "proc (kill_current_process (set_state ''running'' s)) =
              (case proc s of
                 None \<Rightarrow> None
               | Some h \<Rightarrow> if poll_is_None s h then None else Some h)"
    by (simp_all add: kill_current_process_def set_state_def update_process_def
          poll_is_None_def split: option.split)
  have launch: "launch_ok pf (ToplevelCommand c f a p) s =
        launch_succeeds pf
          (backend_cmd_line pf (thonny_dir s) @
             (case f of
                None \<Rightarrow> []
              | Some name \<Rightarrow> name # (case a of None \<Rightarrow> [] | Some extra \<Rightarrow> extra)))
          ((os_environ pf)(''PYTHONIOENCODING'' \<mapsto> ''UTF-8'',
                           ''PYTHONUNBUFFERED'' \<mapsto> ''1''))
          (cwd s)"
    by (simp add: launch_ok_def worker_cmd_line_ToplevelCommand worker_env_def
          COMMUNICATION_ENCODING_def)
  have first: "(c = ''Run'' \<or> c = ''Debug'' \<or> c = ''Reset'') \<and> launch_ok pf ?cmd s \<longrightarrow>
      (let r = send_command pf (ToplevelCommand c f a p) s;
           n = length (procs s);
           line = serialize_message pf (ToplevelCommand c f a p) @ ''\<newline>''
       in fst r = None
          \<and> proc (snd r) = Some n
          \<and> message_queue (snd r) = Some []
          \<and> procs (snd r) =
              (case proc s of
                 None \<Rightarrow> procs s
               | Some h \<Rightarrow>
                   if poll_is_None s h
                   then (procs s)[h := (procs s ! h)\<lparr> alive := False \<rparr>]
                   else procs s)
              @ [\<lparr> p_args = backend_cmd_line pf (thonny_dir s) @
                     (case f of
                        None \<Rightarrow> []
                      | Some name \<Rightarrow> name # (case a of None \<Rightarrow> [] | Some extra \<Rightarrow> extra)),
                   p_env = (os_environ pf)(''PYTHONIOENCODING'' \<mapsto> ''UTF-8'',
                                           ''PYTHONUNBUFFERED'' \<mapsto> ''1''),
                   p_cwd = cwd s,
                   alive = True,
                   stdin_data = [line] \<rparr>]
          \<and> new_events s (snd r) =
              (if state s \<noteq> Some ''running'' then [SetState ''running''] else [])
              @ (case proc s of
                   None \<Rightarrow> []
                 | Some h \<Rightarrow> if poll_is_None s h then [Kill h] else [])
              @ [Popen n, StartThread ''_listen_stdout'', StartThread ''_listen_stderr'',
                 StdinWrite n line, StdinFlush n])"
  proof
    assume h: "(c = ''Run'' \<or> c = ''Debug'' \<or> c = ''Reset'') \<and> launch_ok pf ?cmd s"
    then have r: "restarts ?cmd" and l: "launch_ok pf ?cmd s" by simp_all
    have ev: "new_events s (snd (send_command pf ?cmd s)) =
              (if state s \<noteq> Some ''running'' then [SetState ''running''] else [])
              @ (case proc s of
                   None \<Rightarrow> []
                 | Some h \<Rightarrow> if poll_is_None s h then [Kill h] else [])
              @ [Popen (length (procs s)), StartThread ''_listen_stdout'',
                 StartThread ''_listen_stderr'',
                 StdinWrite (length (procs s)) (serialize_message pf ?cmd @ ''\<newline>''),
                 StdinFlush (length (procs s))]"
      using r l by (simp add: new_events_def send_command_trace del: restarts.simps)
    have err: "fst (send_command pf ?cmd s) = None"
      using r l by (simp add: send_command_error del: restarts.simps)
    have fields: "proc (snd (send_command pf ?cmd s)) = Some (length (procs s))
        \<and> message_queue (snd (send_command pf ?cmd s)) = Some []"
      using r l
      by (simp add: send_command_cases stdin_write_fields start_new_process_fields
            kill_current_process_fields set_state_fields launch_ok_unchanged
          del: restarts.simps)
    have lk: "launch_succeeds pf
                (worker_cmd_line pf ?cmd (kill_current_process (set_state ''running'' s)))
                (worker_env pf) (cwd s)"
      using l by (simp add: launch_ok_def worker_cmd_line_unchanged
                    kill_current_process_fields set_state_fields)
    have table: "procs (snd (send_command pf ?cmd s)) =
              (case proc s of
                 None \<Rightarrow> procs s
               | Some h \<Rightarrow>
                   if poll_is_None s h
                   then (procs s)[h := (procs s ! h)\<lparr> alive := False \<rparr>]
                   else procs s)
              @ [\<lparr> p_args = backend_cmd_line pf (thonny_dir s) @
                     (case f of
                        None \<Rightarrow> []
                      | Some name \<Rightarrow> name # (case a of None \<Rightarrow> [] | Some extra \<Rightarrow> extra)),
                   p_env = (os_environ pf)(''PYTHONIOENCODING'' \<mapsto> ''UTF-8'',
                                           ''PYTHONUNBUFFERED'' \<mapsto> ''1''),
                   p_cwd = cwd s,
                   alive = True,
                   stdin_data = [serialize_message pf ?cmd @ ''\<newline>''] \<rparr>]"
      using r l lk
      by (simp add: send_command_cases stdin_write_def start_new_process_def Let_def
            update_process_def killed kill_current_process_fields set_state_fields
            worker_cmd_line_unchanged worker_cmd_line_ToplevelCommand worker_env_def
            COMMUNICATION_ENCODING_def
          del: restarts.simps)
    from ev err fields table show "(let r = send_command pf (ToplevelCommand c f a p) s;
           n = length (procs s);
           line = serialize_message pf (ToplevelCommand c f a p) @ ''\<newline>''
       in fst r = None
          \<and> proc (snd r) = Some n
          \<and> message_queue (snd r) = Some []
          \<and> procs (snd r) =
              (case proc s of
                 None \<Rightarrow> procs s
               | Some h \<Rightarrow>
                   if poll_is_None s h
                   then (procs s)[h := (procs s ! h)\<lparr> alive := False \<rparr>]
                   else procs s)
              @ [\<lparr> p_args = backend_cmd_line pf (thonny_dir s) @
                     (case f of
                        None \<Rightarrow> []
                      | Some name \<Rightarrow> name # (case a of None \<Rightarrow> [] | Some extra \<Rightarrow> extra)),
                   p_env = (os_environ pf)(''PYTHONIOENCODING'' \<mapsto> ''UTF-8'',
                                           ''PYTHONUNBUFFERED'' \<mapsto> ''1''),
                   p_cwd = cwd s,
                   alive = True,
                   stdin_data = [line] \<rparr>]
          \<and> new_events s (snd r) =
              (if state s \<noteq> Some ''running'' then [SetState ''running''] else [])
              @ (case proc s of
                   None \<Rightarrow> []
                 | Some h \<Rightarrow> if poll_is_None s h then [Kill h] else [])
              @ [Popen n, StartThread ''_listen_stdout'', StartThread ''_listen_stderr'',
                 StdinWrite n line, StdinFlush n])"
      unfolding Let_def by (intro conjI) simp_all
  qed
  have failing: "(c = ''Run'' \<or> c = ''Debug'' \<or> c = ''Reset'') \<and> \<not> launch_ok pf ?cmd s \<longrightarrow>
      (let r = send_command pf (ToplevelCommand c f a p) s
       in fst r = Some OSError
          \<and> state (snd r) = Some ''running''
          \<and> message_queue (snd r) = Some []
          \<and> proc (snd r) =
              (case proc s of
                 None \<Rightarrow> None
               | Some h \<Rightarrow> if poll_is_None s h then None else Some h)
          \<and> procs (snd r) =
              (case proc s of
                 None \<Rightarrow> procs s
               | Some h \<Rightarrow>
                   if poll_is_None s h
                   then (procs s)[h := (procs s ! h)\<lparr> alive := False \<rparr>]
                   else procs s)
          \<and> new_events s (snd r) =
              (if state s \<noteq> Some ''running'' then [SetState ''running''] else [])
              @ (case proc s of
                   None \<Rightarrow> []
                 | Some h \<Rightarrow> if poll_is_None s h then [Kill h] else []))"
  proof
    assume h: "(c = ''Run'' \<or> c = ''Debug'' \<or> c = ''Reset'') \<and> \<not> launch_ok pf ?cmd s"
    then have r: "restarts ?cmd" and l: "\<not> launch_ok pf ?cmd s" by simp_all
    have ev: "new_events s (snd (send_command pf ?cmd s)) =
              (if state s \<noteq> Some ''running'' then [SetState ''running''] else [])
              @ (case proc s of
                   None \<Rightarrow> []
                 | Some h \<Rightarrow> if poll_is_None s h then [Kill h] else [])"
      using r l by (simp add: new_events_def send_command_trace del: restarts.simps)
    have err: "fst (send_command pf ?cmd s) = Some OSError"
      using r l by (simp add: send_command_error del: restarts.simps)
    have st: "state (snd (send_command pf ?cmd s)) = Some ''running''"
      by (simp add: send_command_state)
    have q: "message_queue (snd (send_command pf ?cmd s)) = Some []"
      using r by (rule restart_queue)
    have lk: "\<not> launch_succeeds pf
                (worker_cmd_line pf ?cmd (kill_current_process (set_state ''running'' s)))
                (worker_env pf) (cwd s)"
      using l by (simp add: launch_ok_def worker_cmd_line_unchanged
                    kill_current_process_fields set_state_fields)
    have table: "proc (snd (send_command pf ?cmd s)) =
              (case proc s of
                 None \<Rightarrow> None
               | Some h \<Rightarrow> if poll_is_None s h then None else Some h)
          \<and> procs (snd (send_command pf ?cmd s)) =
              (case proc s of
                 None \<Rightarrow> procs s
               | Some h \<Rightarrow>
                   if poll_is_None s h
                   then (procs s)[h := (procs s ! h)\<lparr> alive := False \<rparr>]
                   else procs s)"
      using r l lk
      by (simp add: send_command_cases start_new_process_def Let_def killed
            kill_current_process_fields set_state_fields worker_cmd_line_unchanged
          del: restarts.simps)
    from ev err st q table show "(let r = send_command pf (ToplevelCommand c f a p) s
       in fst r = Some OSError
          \<and> state (snd r) = Some ''running''
          \<and> message_queue (snd r) = Some []
          \<and> proc (snd r) =
              (case proc s of
                 None \<Rightarrow> None
               | Some h \<Rightarrow> if poll_is_None s h then None else Some h)
          \<and> procs (snd r) =
              (case proc s of
                 None \<Rightarrow> procs s
               | Some h \<Rightarrow>
                   if poll_is_None s h
                   then (procs s)[h := (procs s ! h)\<lparr> alive := False \<rparr>]
                   else procs s)
          \<and> new_events s (snd r) =
              (if state s \<noteq> Some ''running'' then [SetState ''running''] else [])
              @ (case proc s of
                   None \<Rightarrow> []
                 | Some h \<Rightarrow> if poll_is_None s h then [Kill h] else []))"
      unfolding Let_def by (intro conjI) simp_all
  qed
  have second: "\<not> restarts cmd \<longrightarrow>
        proc (snd (send_command pf cmd s)) = proc s
        \<and> message_queue (snd (send_command pf cmd s)) = message_queue s
        \<and> length (procs (snd (send_command pf cmd s))) = length (procs s)
        \<and> map alive (procs (snd (send_command pf cmd s))) = map alive (procs s)
        \<and> (\<forall>h. Kill h \<notin> set (new_events s (snd (send_command pf cmd s)))
                \<and> Popen h \<notin> set (new_events s (snd (send_command pf cmd s))))"
  proof
    assume n: "\<not> restarts cmd"
    have a: "proc (snd (send_command pf cmd s)) = proc s
        \<and> message_queue (snd (send_command pf cmd s)) = message_queue s"
      using n by (simp add: send_command_cases stdin_write_fields set_state_fields)
    have b: "length (procs (snd (send_command pf cmd s))) = length (procs s)
        \<and> map alive (procs (snd (send_command pf cmd s))) = map alive (procs s)"
      using n by (simp add: send_command_cases stdin_write_procs set_state_fields)
    have c: "\<forall>h. Kill h \<notin> set (new_events s (snd (send_command pf cmd s)))
                \<and> Popen h \<notin> set (new_events s (snd (send_command pf cmd s)))"
      using n by (simp add: new_events_def send_command_trace split: option.split)
    from a b c show "proc (snd (send_command pf cmd s)) = proc s
        \<and> message_queue (snd (send_command pf cmd s)) = message_queue s
        \<and> length (procs (snd (send_command pf cmd s))) = length (procs s)
        \<and> map alive (procs (snd (send_command pf cmd s))) = map alive (procs s)
        \<and> (\<forall>h. Kill h \<notin> set (new_events s (snd (send_command pf cmd s)))
                \<and> Popen h \<notin> set (new_events s (snd (send_command pf cmd s))))"
      by blast
  qed
  from first failing launch second restarts_iff [of cmd] show ?thesis by (intro conjI)
qed

theorem send_command_restart_witness:
  "restarts run_script
   \<and> launch_ok posix_platform run_script waiting_proxy
   \<and> poll_is_None waiting_proxy 0
   \<and> cwd waiting_proxy = ''/tmp/x''
   \<and> fst (send_command posix_platform run_script waiting_proxy) = None
   \<and> proc (snd (send_command posix_platform run_script waiting_proxy)) = Some 1
   \<and> message_queue (snd (send_command posix_platform run_script waiting_proxy)) = Some []
   \<and> \<not> alive (procs (snd (send_command posix_platform run_script waiting_proxy)) ! 0)
   \<and> procs (snd (send_command posix_platform run_script waiting_proxy)) ! 1 =
       \<lparr> p_args = [''/usr/bin/python3'', ''-u'', ''/opt/thonny/thonny_backend.py'',
                   ''a.py'', ''-v''],
         p_env = [''HOME'' \<mapsto> ''/home/user'', ''PYTHONIOENCODING'' \<mapsto> ''UTF-8'',
                  ''PYTHONUNBUFFERED'' \<mapsto> ''1''],
         p_cwd = ''/tmp/x'',
         alive = True,
         stdin_data = [''ToplevelCommand Run\<newline>''] \<rparr>
   \<and> new_events waiting_proxy (snd (send_command posix_platform run_script waiting_proxy)) =
       [SetState ''running'', Kill 0, Popen 1, StartThread ''_listen_stdout'',
        StartThread ''_listen_stderr'', StdinWrite 1 ''ToplevelCommand Run\<newline>'',
        StdinFlush 1]
   \<and> \<not> launch_ok posix_platform run_script gone_proxy
   \<and> fst (send_command posix_platform run_script gone_proxy) = Some OSError
   \<and> state (snd (send_command posix_platform run_script gone_proxy)) = Some ''running''
   \<and> message_queue (snd (send_command posix_platform run_script gone_proxy)) = Some []
   \<and> proc (snd (send_command posix_platform run_script gone_proxy)) = None
   \<and> length (procs (snd (send_command posix_platform run_script gone_proxy))) = 1
   \<and> new_events gone_proxy (snd (send_command posix_platform run_script gone_proxy)) =
       [SetState ''running'', Kill 0]
   \<and> \<not> restarts (InlineCommand ''tkupdate'')
   \<and> proc (snd (send_command posix_platform (InlineCommand ''tkupdate'') waiting_proxy))
       = Some 0
   \<and> map alive (procs (snd (send_command posix_platform (InlineCommand ''tkupdate'')
                               waiting_proxy))) = [True]"
proof -
  have gone: "gone_proxy = snd (listen_stdout_step gone_message waiting_proxy)"
    by (simp add: gone_proxy_def waiting_proxy_def run_def)
  have gf: "proc gone_proxy = Some 0" "cwd gone_proxy = ''/gone''"
    "state gone_proxy = Some ''waiting_toplevel_command''"
    "length (procs gone_proxy) = 1" "alive (procs gone_proxy ! 0)"
    by (simp_all add: gone listen_stdout_step_def Let_def gone_message_def set_state_def
          waiting_proxy_fields)
  have gp: "poll_is_None gone_proxy 0"
    by (simp add: poll_is_None_def gf)
  have n: "\<not> restarts (InlineCommand ''tkupdate'')" by simp
  have p: "poll_is_None waiting_proxy 0"
    by (simp add: poll_is_None_def waiting_proxy_fields)
  have l: "launch_ok posix_platform run_script waiting_proxy"
    by (simp add: launch_ok_def waiting_proxy_fields) (simp add: posix_platform_def)
  have gl: "\<not> launch_ok posix_platform run_script gone_proxy"
    by (simp add: launch_ok_def gf) (simp add: posix_platform_def)
  have c: "(''Run'' = ''Run'' \<or> ''Run'' = ''Debug'' \<or> ''Run'' = ''Reset'')
      \<and> launch_ok posix_platform
            (ToplevelCommand ''Run'' (Some ''a.py'') (Some [''-v'']) None) waiting_proxy"
    using l by (simp add: run_script_def)
  have d: "(''Run'' = ''Run'' \<or> ''Run'' = ''Debug'' \<or> ''Run'' = ''Reset'')
      \<and> \<not> launch_ok posix_platform
            (ToplevelCommand ''Run'' (Some ''a.py'') (Some [''-v'']) None) gone_proxy"
    using gl by (simp add: run_script_def)
  have ser: "serialize_message posix_platform
               (ToplevelCommand ''Run'' (Some ''a.py'') (Some [''-v'']) None)
             = ''ToplevelCommand Run''"
    by (simp add: posix_platform_def)
  have env: "os_environ posix_platform = [''HOME'' \<mapsto> ''/home/user'']"
    by (simp add: posix_platform_def)
  have al: "map alive (procs waiting_proxy) = [True]"
    using waiting_proxy_fields(5,6) by (cases "procs waiting_proxy") simp_all
  note inst = send_command_restart [where pf = posix_platform]
  note a = inst [where s = waiting_proxy and c = "''Run''" and f = "Some ''a.py''"
                   and a = "Some [''-v'']" and p = None,
                 THEN conjunct1, rule_format, OF c, unfolded Let_def]
  note e = inst [where s = gone_proxy and c = "''Run''" and f = "Some ''a.py''"
                   and a = "Some [''-v'']" and p = None,
                 THEN conjunct2, THEN conjunct1, rule_format, OF d, unfolded Let_def]
  note b = inst [where s = waiting_proxy and cmd = "InlineCommand ''tkupdate''",
                 THEN conjunct2, THEN conjunct2, THEN conjunct2, THEN conjunct1,
                 rule_format, OF n]
  from a b e p gp n l gl al show ?thesis
    by (simp add: run_script_def waiting_proxy_fields gf ser env backend_cmd_line_posix
          thonny_dir_waiting_proxy nth_append)
qed

end
